theory Spec2Isabelle
  imports Main
begin

section \<open>The manifest catalogue of \<open>multi_dataset.py\<close>\<close>

text \<open>
  \<open>multi_dataset.py\<close> holds one class, \<open>MultiDataset\<close>. Its constructor keeps
  \<open>Path(fbank_dir)\<close>; every other method logs, calls \<open>load_manifest_lazy\<close> on paths
  joined to that root, and returns the handles: alone, in a \<open>dict\<close>, or (for
  \<open>train_cuts\<close>) through \<open>CutSet.mux\<close> with \<open>len\<close> of every handle as weight.

  The methods raise nothing themselves and catch nothing. What can fail is a call into
  \<open>lhotse\<close>, which is not part of the file; it is a parameter of the model, and each of
  its three operations returns an error or a value.
\<close>

subsection \<open>Paths\<close>

text \<open>
  A path is kept as the expression the code builds with \<open>pathlib\<close>: \<open>Path(s)\<close>, then
  \<open>p / segment\<close> once per joined segment.
\<close>

datatype path = Path string | Slash path string

subsection \<open>The library and the calls made into it\<close>

text \<open>
  \<open>'c\<close> is the type of the handles of the library (\<open>CutSet\<close>), \<open>'e\<close> the type of what it
  raises.
\<close>

record ('c, 'e) lhotse =
  load_manifest_lazy :: "path \<Rightarrow> 'e + 'c"
  len :: "'c \<Rightarrow> 'e + int"
  mux :: "'c list \<Rightarrow> int list \<Rightarrow> 'e + 'c"

text \<open>
  Every call that leaves the file is recorded, in the order it is made:
  \<open>logging.info(msg)\<close>, \<open>load_manifest_lazy(p)\<close>, \<open>len(c)\<close> and
  \<open>CutSet.mux(*cs, weights=ws)\<close>.
\<close>

datatype 'c call =
    CallInfo string
  | CallLoad path
  | CallLen 'c
  | CallMux "'c list" "int list"

text \<open>
  A run of a method is the list of calls it made and how it ended: \<open>Inl e\<close> when a call
  raised \<open>e\<close> (nothing in the file catches it), \<open>Inr a\<close> when it returned \<open>a\<close>.
\<close>

type_synonym ('c, 'e, 'a) run = "'c call list \<times> ('e + 'a)"

definition return :: "'a \<Rightarrow> ('c, 'e, 'a) run" where
  "return a = ([], Inr a)"

definition bind :: "('c, 'e, 'a) run \<Rightarrow> ('a \<Rightarrow> ('c, 'e, 'b) run) \<Rightarrow> ('c, 'e, 'b) run" where
  "bind m f =
     (case snd m of
        Inl e \<Rightarrow> (fst m, Inl e)
      | Inr a \<Rightarrow> (fst m @ fst (f a), snd (f a)))"

definition logging_info :: "string \<Rightarrow> ('c, 'e, unit) run" where
  "logging_info msg = ([CallInfo msg], Inr ())"

definition call_load :: "('c, 'e) lhotse \<Rightarrow> path \<Rightarrow> ('c, 'e, 'c) run" where
  "call_load lib p = ([CallLoad p], load_manifest_lazy lib p)"

definition call_len :: "('c, 'e) lhotse \<Rightarrow> 'c \<Rightarrow> ('c, 'e, int) run" where
  "call_len lib c = ([CallLen c], len lib c)"

definition call_mux :: "('c, 'e) lhotse \<Rightarrow> 'c list \<Rightarrow> int list \<Rightarrow> ('c, 'e, 'c) run" where
  "call_mux lib cs ws = ([CallMux cs ws], mux lib cs ws)"

subsection \<open>The class\<close>

record MultiDataset =
  fbank_dir :: path

text \<open>\<open>__init__\<close>: \<open>self.fbank_dir = Path(fbank_dir)\<close>.\<close>

definition init :: "string \<Rightarrow> ('c, 'e, MultiDataset) run" where
  "init d = return \<lparr>fbank_dir = Path d\<rparr>"

text \<open>
  \<open>train_cuts\<close>: thirteen loads in the order of the source, then the arguments of
  \<open>CutSet.mux\<close> from left to right: the thirteen handles, the thirteen \<open>len\<close> calls of the
  \<open>weights\<close> list, and the call itself.
\<close>

definition train_cuts :: "('c, 'e) lhotse \<Rightarrow> MultiDataset \<Rightarrow> ('c, 'e, 'c) run" where
  "train_cuts lib self =
     bind (logging_info ''About to get multidataset train cuts'') (\<lambda>_.
     bind (logging_info ''Loading THCHS-30 in lazy mode'') (\<lambda>_.
     bind (call_load lib (Slash (fbank_dir self) ''thchs_30_cuts_train.jsonl.gz'')) (\<lambda>thchs_30_cuts.
     bind (logging_info ''Loading Aishell-1 in lazy mode'') (\<lambda>_.
     bind (call_load lib (Slash (fbank_dir self) ''aishell_cuts_train.jsonl.gz'')) (\<lambda>aishell_cuts.
     bind (logging_info ''Loading Aishell-2 in lazy mode'') (\<lambda>_.
     bind (call_load lib (Slash (fbank_dir self) ''aishell2_cuts_train.jsonl.gz'')) (\<lambda>aishell_2_cuts.
     bind (logging_info ''Loading Aishell-4 in lazy mode'') (\<lambda>_.
     bind (call_load lib (Slash (fbank_dir self) ''aishell4_cuts_train_L.jsonl.gz'')) (\<lambda>aishell_4_L_cuts.
     bind (call_load lib (Slash (fbank_dir self) ''aishell4_cuts_train_M.jsonl.gz'')) (\<lambda>aishell_4_M_cuts.
     bind (call_load lib (Slash (fbank_dir self) ''aishell4_cuts_train_S.jsonl.gz'')) (\<lambda>aishell_4_S_cuts.
     bind (logging_info ''Loading ST-CMDS in lazy mode'') (\<lambda>_.
     bind (call_load lib (Slash (fbank_dir self) ''stcmds_cuts_train.jsonl.gz'')) (\<lambda>stcmds_cuts.
     bind (logging_info ''Loading Primewords in lazy mode'') (\<lambda>_.
     bind (call_load lib (Slash (fbank_dir self) ''primewords_cuts_train.jsonl.gz'')) (\<lambda>primewords_cuts.
     bind (logging_info ''Loading MagicData in lazy mode'') (\<lambda>_.
     bind (call_load lib (Slash (fbank_dir self) ''magicdata_cuts_train.jsonl.gz'')) (\<lambda>magicdata_cuts.
     bind (logging_info ''Loading Ali-Meeting in lazy mode'') (\<lambda>_.
     bind (call_load lib (Slash (fbank_dir self) ''alimeeting-far_cuts_train.jsonl.gz'')) (\<lambda>alimeeting_cuts.
     bind (logging_info ''Loading WeNetSpeech in lazy mode'') (\<lambda>_.
     bind (call_load lib (Slash (Slash (fbank_dir self) ''wenetspeech'') ''cuts_L_fixed.jsonl.gz'')) (\<lambda>wenetspeech_L_cuts.
     bind (logging_info ''Loading KeSpeech in lazy mode'') (\<lambda>_.
     bind (call_load lib (Slash (Slash (fbank_dir self) ''kespeech'') ''kespeech-asr_cuts_train_phase1.jsonl.gz'')) (\<lambda>kespeech_1_cuts.
     bind (call_load lib (Slash (Slash (fbank_dir self) ''kespeech'') ''kespeech-asr_cuts_train_phase2.jsonl.gz'')) (\<lambda>kespeech_2_cuts.
     bind (call_len lib thchs_30_cuts) (\<lambda>w0.
     bind (call_len lib aishell_cuts) (\<lambda>w1.
     bind (call_len lib aishell_2_cuts) (\<lambda>w2.
     bind (call_len lib aishell_4_L_cuts) (\<lambda>w3.
     bind (call_len lib aishell_4_M_cuts) (\<lambda>w4.
     bind (call_len lib aishell_4_S_cuts) (\<lambda>w5.
     bind (call_len lib alimeeting_cuts) (\<lambda>w6.
     bind (call_len lib stcmds_cuts) (\<lambda>w7.
     bind (call_len lib primewords_cuts) (\<lambda>w8.
     bind (call_len lib magicdata_cuts) (\<lambda>w9.
     bind (call_len lib wenetspeech_L_cuts) (\<lambda>w10.
     bind (call_len lib kespeech_1_cuts) (\<lambda>w11.
     bind (call_len lib kespeech_2_cuts) (\<lambda>w12.
     call_mux lib
       [thchs_30_cuts, aishell_cuts, aishell_2_cuts, aishell_4_L_cuts, aishell_4_M_cuts,
        aishell_4_S_cuts, alimeeting_cuts, stcmds_cuts, primewords_cuts, magicdata_cuts,
        wenetspeech_L_cuts, kespeech_1_cuts, kespeech_2_cuts]
       [w0, w1, w2, w3, w4, w5, w6, w7, w8, w9, w10, w11, w12])))))))))))))))))))))))))))))))))))))"


subsection \<open>Dictionaries\<close>

text \<open>
  A \<open>dict\<close> keeps its keys in insertion order; \<open>d[k] = v\<close> replaces the value of a key
  that is present, in place, and appends the pair otherwise. A display
  \<open>{k1: v1, k2: v2, ...}\<close> inserts its pairs from left to right into the empty dict.
\<close>

type_synonym ('k, 'v) dict = "('k \<times> 'v) list"

fun dict_setitem :: "('k, 'v) dict \<Rightarrow> 'k \<Rightarrow> 'v \<Rightarrow> ('k, 'v) dict" where
  "dict_setitem [] k v = [(k, v)]"
| "dict_setitem ((k', v') # d) k v =
     (if k' = k then (k, v) # d else (k', v') # dict_setitem d k v)"

definition dict_display :: "('k \<times> 'v) list \<Rightarrow> ('k, 'v) dict" where
  "dict_display kvs = foldl (\<lambda>d (k, v). dict_setitem d k v) [] kvs"

text \<open>\<open>dev_cuts\<close>.\<close>

definition dev_cuts :: "('c, 'e) lhotse \<Rightarrow> MultiDataset \<Rightarrow> ('c, 'e, 'c) run" where
  "dev_cuts lib self =
     bind (logging_info ''About to get multidataset dev cuts'') (\<lambda>_.
     bind (logging_info ''Loading WeNetSpeech DEV set in lazy mode'') (\<lambda>_.
     bind (call_load lib (Slash (Slash (fbank_dir self) ''wenetspeech'') ''cuts_DEV_fixed.jsonl.gz'')) (\<lambda>wenetspeech_dev_cuts.
     return wenetspeech_dev_cuts)))"

text \<open>\<open>test_cuts\<close>: fifteen loads in the order of the source, then the display.\<close>

definition test_cuts :: "('c, 'e) lhotse \<Rightarrow> MultiDataset \<Rightarrow> ('c, 'e, (string, 'c) dict) run" where
  "test_cuts lib self =
     bind (logging_info ''About to get multidataset test cuts'') (\<lambda>_.
     bind (logging_info ''Loading Aishell set in lazy mode'') (\<lambda>_.
     bind (call_load lib (Slash (fbank_dir self) ''aishell_cuts_test.jsonl.gz'')) (\<lambda>aishell_test_cuts.
     bind (call_load lib (Slash (fbank_dir self) ''aishell_cuts_dev.jsonl.gz'')) (\<lambda>aishell_dev_cuts.
     bind (logging_info ''Loading Aishell-2 set in lazy mode'') (\<lambda>_.
     bind (call_load lib (Slash (fbank_dir self) ''aishell2_cuts_test.jsonl.gz'')) (\<lambda>aishell2_test_cuts.
     bind (call_load lib (Slash (fbank_dir self) ''aishell2_cuts_dev.jsonl.gz'')) (\<lambda>aishell2_dev_cuts.
     bind (logging_info ''Loading Aishell-4 TEST set in lazy mode'') (\<lambda>_.
     bind (call_load lib (Slash (fbank_dir self) ''aishell4_cuts_test.jsonl.gz'')) (\<lambda>aishell4_test_cuts.
     bind (logging_info ''Loading Ali-Meeting set in lazy mode'') (\<lambda>_.
     bind (call_load lib (Slash (fbank_dir self) ''alimeeting-far_cuts_test.jsonl.gz'')) (\<lambda>alimeeting_test_cuts.
     bind (call_load lib (Slash (fbank_dir self) ''alimeeting-far_cuts_eval.jsonl.gz'')) (\<lambda>alimeeting_eval_cuts.
     bind (logging_info ''Loading MagicData set in lazy mode'') (\<lambda>_.
     bind (call_load lib (Slash (fbank_dir self) ''magicdata_cuts_test.jsonl.gz'')) (\<lambda>magicdata_test_cuts.
     bind (call_load lib (Slash (fbank_dir self) ''magicdata_cuts_dev.jsonl.gz'')) (\<lambda>magicdata_dev_cuts.
     bind (logging_info ''Loading KeSpeech set in lazy mode'') (\<lambda>_.
     bind (call_load lib (Slash (Slash (fbank_dir self) ''kespeech'') ''kespeech-asr_cuts_test.jsonl.gz'')) (\<lambda>kespeech_test_cuts.
     bind (call_load lib (Slash (Slash (fbank_dir self) ''kespeech'') ''kespeech-asr_cuts_dev_phase1.jsonl.gz'')) (\<lambda>kespeech_dev_phase1_cuts.
     bind (call_load lib (Slash (Slash (fbank_dir self) ''kespeech'') ''kespeech-asr_cuts_dev_phase2.jsonl.gz'')) (\<lambda>kespeech_dev_phase2_cuts.
     bind (logging_info ''Loading WeNetSpeech set in lazy mode'') (\<lambda>_.
     bind (call_load lib (Slash (Slash (fbank_dir self) ''wenetspeech'') ''cuts_TEST_MEETING.jsonl.gz'')) (\<lambda>wenetspeech_test_meeting_cuts.
     bind (call_load lib (Slash (Slash (fbank_dir self) ''wenetspeech'') ''cuts_TEST_NET.jsonl.gz'')) (\<lambda>wenetspeech_test_net_cuts.
     bind (call_load lib (Slash (Slash (fbank_dir self) ''wenetspeech'') ''cuts_DEV_fixed.jsonl.gz'')) (\<lambda>wenetspeech_dev_cuts.
     return (dict_display
       [(''wenetspeech-meeting_test'', wenetspeech_test_meeting_cuts),
        (''aishell_test'', aishell_test_cuts),
        (''aishell_dev'', aishell_dev_cuts),
        (''ali-meeting_test'', alimeeting_test_cuts),
        (''ali-meeting_eval'', alimeeting_eval_cuts),
        (''aishell-4_test'', aishell4_test_cuts),
        (''aishell-2_test'', aishell2_test_cuts),
        (''aishell-2_dev'', aishell2_dev_cuts),
        (''magicdata_test'', magicdata_test_cuts),
        (''magicdata_dev'', magicdata_dev_cuts),
        (''kespeech-asr_test'', kespeech_test_cuts),
        (''kespeech-asr_dev_phase1'', kespeech_dev_phase1_cuts),
        (''kespeech-asr_dev_phase2'', kespeech_dev_phase2_cuts),
        (''wenetspeech-net_test'', wenetspeech_test_net_cuts),
        (''wenetspeech_dev'', wenetspeech_dev_cuts)]))))))))))))))))))))))))"

text \<open>
  The accessors of one corpus. Four return the handle, three return a display with one
  pair (the annotation \<open>-> CutSet\<close> of those three is not what they return).
\<close>

definition aishell_train_cuts :: "('c, 'e) lhotse \<Rightarrow> MultiDataset \<Rightarrow> ('c, 'e, 'c) run" where
  "aishell_train_cuts lib self =
     bind (logging_info ''About to get multidataset train cuts'') (\<lambda>_.
     bind (logging_info ''Loading Aishell-1 in lazy mode'') (\<lambda>_.
     bind (call_load lib (Slash (fbank_dir self) ''aishell_cuts_train.jsonl.gz'')) (\<lambda>aishell_cuts.
     return aishell_cuts)))"

definition aishell_dev_cuts :: "('c, 'e) lhotse \<Rightarrow> MultiDataset \<Rightarrow> ('c, 'e, 'c) run" where
  "aishell_dev_cuts lib self =
     bind (logging_info ''About to get multidataset dev cuts'') (\<lambda>_.
     bind (logging_info ''Loading Aishell set in lazy mode'') (\<lambda>_.
     bind (call_load lib (Slash (fbank_dir self) ''aishell_cuts_dev.jsonl.gz'')) (\<lambda>aishell_dev_cuts.
     return aishell_dev_cuts)))"

definition aishell_test_cuts :: "('c, 'e) lhotse \<Rightarrow> MultiDataset \<Rightarrow> ('c, 'e, (string, 'c) dict) run" where
  "aishell_test_cuts lib self =
     bind (logging_info ''About to get multidataset test cuts'') (\<lambda>_.
     bind (logging_info ''Loading Aishell set in lazy mode'') (\<lambda>_.
     bind (call_load lib (Slash (fbank_dir self) ''aishell_cuts_test.jsonl.gz'')) (\<lambda>aishell_test_cuts.
     return (dict_display [(''aishell_test'', aishell_test_cuts)]))))"

definition aishell2_train_cuts :: "('c, 'e) lhotse \<Rightarrow> MultiDataset \<Rightarrow> ('c, 'e, 'c) run" where
  "aishell2_train_cuts lib self =
     bind (logging_info ''About to get multidataset train cuts'') (\<lambda>_.
     bind (logging_info ''Loading Aishell-2 in lazy mode'') (\<lambda>_.
     bind (call_load lib (Slash (fbank_dir self) ''aishell2_cuts_train.jsonl.gz'')) (\<lambda>aishell_2_cuts.
     return aishell_2_cuts)))"

definition aishell2_dev_cuts :: "('c, 'e) lhotse \<Rightarrow> MultiDataset \<Rightarrow> ('c, 'e, 'c) run" where
  "aishell2_dev_cuts lib self =
     bind (logging_info ''About to get multidataset dev cuts'') (\<lambda>_.
     bind (logging_info ''Loading Aishell-2 set in lazy mode'') (\<lambda>_.
     bind (call_load lib (Slash (fbank_dir self) ''aishell2_cuts_dev.jsonl.gz'')) (\<lambda>aishell2_dev_cuts.
     return aishell2_dev_cuts)))"

definition aishell2_test_cuts :: "('c, 'e) lhotse \<Rightarrow> MultiDataset \<Rightarrow> ('c, 'e, (string, 'c) dict) run" where
  "aishell2_test_cuts lib self =
     bind (logging_info ''About to get multidataset test cuts'') (\<lambda>_.
     bind (logging_info ''Loading Aishell-2 set in lazy mode'') (\<lambda>_.
     bind (call_load lib (Slash (fbank_dir self) ''aishell2_cuts_test.jsonl.gz'')) (\<lambda>aishell2_test_cuts.
     return (dict_display [(''aishell2_test'', aishell2_test_cuts)]))))"

definition wenetspeech_test_meeting_cuts :: "('c, 'e) lhotse \<Rightarrow> MultiDataset \<Rightarrow> ('c, 'e, (string, 'c) dict) run" where
  "wenetspeech_test_meeting_cuts lib self =
     bind (logging_info ''About to get multidataset test cuts'') (\<lambda>_.
     bind (logging_info ''Loading WeNetSpeech set in lazy mode'') (\<lambda>_.
     bind (call_load lib (Slash (Slash (fbank_dir self) ''wenetspeech'') ''cuts_TEST_MEETING.jsonl.gz'')) (\<lambda>wenetspeech_test_meeting_cuts.
     return (dict_display [(''wenetspeech-meeting_test'', wenetspeech_test_meeting_cuts)]))))"

subsection \<open>\<open>speechio_test_cuts\<close>\<close>

text \<open>
  \<open>f"{i}"\<close> is the decimal numeral of the integer \<open>i\<close>, with a minus sign below zero.
\<close>

fun str_nat :: "nat \<Rightarrow> string" where
  "str_nat n =
     (if n < 10 then [''0123456789'' ! n]
      else str_nat (n div 10) @ [''0123456789'' ! (n mod 10)])"

definition str :: "int \<Rightarrow> string" where
  "str i = (if i < 0 then CHR ''-'' # str_nat (nat (- i)) else str_nat (nat i))"

text \<open>
  \<open>s.zfill(width)\<close> pads with zeros on the left up to \<open>width\<close> characters, after a
  leading sign when there is one, and returns \<open>s\<close> when it is long enough.
\<close>

definition zfill :: "string \<Rightarrow> nat \<Rightarrow> string" where
  "zfill s width =
     (if width \<le> length s then s
      else (case s of
              [] \<Rightarrow> replicate width CHR ''0''
            | c # rest \<Rightarrow>
                if c = CHR ''+'' \<or> c = CHR ''-''
                then c # replicate (width - length s) CHR ''0'' @ rest
                else replicate (width - length s) CHR ''0'' @ s))"

text \<open>\<open>range(start, stop)\<close>: the integers from \<open>start\<close> up to \<open>stop - 1\<close>.\<close>

definition range_int :: "int \<Rightarrow> int \<Rightarrow> int list" where
  "range_int start stop = [start..stop - 1]"

text \<open>The first loop appends one partition name per index.\<close>

fun dataset_parts_loop :: "int list \<Rightarrow> string list \<Rightarrow> string list" where
  "dataset_parts_loop [] dataset_parts = dataset_parts"
| "dataset_parts_loop (i # rest) dataset_parts =
     (let idx = zfill (str i) 2
      in dataset_parts_loop rest (dataset_parts @ [''SPEECHIO_ASR_ZH000'' @ idx]))"

text \<open>The second loop logs, loads and stores one handle per partition name.\<close>

fun results_loop ::
  "('c, 'e) lhotse \<Rightarrow> MultiDataset \<Rightarrow> string \<Rightarrow> string \<Rightarrow> string list \<Rightarrow> (string, 'c) dict
     \<Rightarrow> ('c, 'e, (string, 'c) dict) run" where
  "results_loop lib self prefix suffix [] results_dict = return results_dict"
| "results_loop lib self prefix suffix (partition_name # rest) results_dict =
     (let path = prefix @ ''_cuts_'' @ partition_name @ ''.'' @ suffix
      in bind (logging_info (''Loading '' @ path @ '' set in lazy mode'')) (\<lambda>_.
         bind (call_load lib (Slash (fbank_dir self) path)) (\<lambda>test_cuts.
         results_loop lib self prefix suffix rest (dict_setitem results_dict partition_name test_cuts))))"

definition speechio_test_cuts :: "('c, 'e) lhotse \<Rightarrow> MultiDataset \<Rightarrow> ('c, 'e, (string, 'c) dict) run" where
  "speechio_test_cuts lib self =
     bind (logging_info ''About to get multidataset test cuts'') (\<lambda>_.
       let start_index = 0;
           end_index = 26;
           dataset_parts = dataset_parts_loop (range_int start_index (end_index + 1)) [];
           prefix = ''speechio'';
           suffix = ''jsonl.gz''
       in results_loop lib self prefix suffix dataset_parts [])"


subsection \<open>The methods with the object passed through\<close>













section \<open>What the properties are stated with\<close>

subsection \<open>The catalogue\<close>

text \<open>
  A manifest is named by the segments joined to the root; \<open>resolve\<close> joins them.
\<close>

definition resolve :: "path \<Rightarrow> string list \<Rightarrow> path" where
  "resolve root segments = foldl Slash root segments"

text \<open>
  The thirteen training manifests, in the order in which \<open>train_cuts\<close> passes their
  handles to \<open>CutSet.mux\<close>. They are the thirteen files of the docstring of
  \<open>__init__\<close>.
\<close>

definition train_catalog :: "string list list" where
  "train_catalog =
     [[''thchs_30_cuts_train.jsonl.gz''],
      [''aishell_cuts_train.jsonl.gz''],
      [''aishell2_cuts_train.jsonl.gz''],
      [''aishell4_cuts_train_L.jsonl.gz''],
      [''aishell4_cuts_train_M.jsonl.gz''],
      [''aishell4_cuts_train_S.jsonl.gz''],
      [''alimeeting-far_cuts_train.jsonl.gz''],
      [''stcmds_cuts_train.jsonl.gz''],
      [''primewords_cuts_train.jsonl.gz''],
      [''magicdata_cuts_train.jsonl.gz''],
      [''wenetspeech'', ''cuts_L_fixed.jsonl.gz''],
      [''kespeech'', ''kespeech-asr_cuts_train_phase1.jsonl.gz''],
      [''kespeech'', ''kespeech-asr_cuts_train_phase2.jsonl.gz'']]"

text \<open>The fifteen partitions of \<open>test_cuts\<close>, in the order of its display.\<close>

definition test_catalog :: "(string \<times> string list) list" where
  "test_catalog =
     [(''wenetspeech-meeting_test'', [''wenetspeech'', ''cuts_TEST_MEETING.jsonl.gz'']),
      (''aishell_test'', [''aishell_cuts_test.jsonl.gz'']),
      (''aishell_dev'', [''aishell_cuts_dev.jsonl.gz'']),
      (''ali-meeting_test'', [''alimeeting-far_cuts_test.jsonl.gz'']),
      (''ali-meeting_eval'', [''alimeeting-far_cuts_eval.jsonl.gz'']),
      (''aishell-4_test'', [''aishell4_cuts_test.jsonl.gz'']),
      (''aishell-2_test'', [''aishell2_cuts_test.jsonl.gz'']),
      (''aishell-2_dev'', [''aishell2_cuts_dev.jsonl.gz'']),
      (''magicdata_test'', [''magicdata_cuts_test.jsonl.gz'']),
      (''magicdata_dev'', [''magicdata_cuts_dev.jsonl.gz'']),
      (''kespeech-asr_test'', [''kespeech'', ''kespeech-asr_cuts_test.jsonl.gz'']),
      (''kespeech-asr_dev_phase1'', [''kespeech'', ''kespeech-asr_cuts_dev_phase1.jsonl.gz'']),
      (''kespeech-asr_dev_phase2'', [''kespeech'', ''kespeech-asr_cuts_dev_phase2.jsonl.gz'']),
      (''wenetspeech-net_test'', [''wenetspeech'', ''cuts_TEST_NET.jsonl.gz'']),
      (''wenetspeech_dev'', [''wenetspeech'', ''cuts_DEV_fixed.jsonl.gz''])]"

text \<open>The twenty-seven partition names of \<open>speechio_test_cuts\<close>.\<close>

definition speechio_names :: "string list" where
  "speechio_names =
     [''SPEECHIO_ASR_ZH00000'',
      ''SPEECHIO_ASR_ZH00001'',
      ''SPEECHIO_ASR_ZH00002'',
      ''SPEECHIO_ASR_ZH00003'',
      ''SPEECHIO_ASR_ZH00004'',
      ''SPEECHIO_ASR_ZH00005'',
      ''SPEECHIO_ASR_ZH00006'',
      ''SPEECHIO_ASR_ZH00007'',
      ''SPEECHIO_ASR_ZH00008'',
      ''SPEECHIO_ASR_ZH00009'',
      ''SPEECHIO_ASR_ZH00010'',
      ''SPEECHIO_ASR_ZH00011'',
      ''SPEECHIO_ASR_ZH00012'',
      ''SPEECHIO_ASR_ZH00013'',
      ''SPEECHIO_ASR_ZH00014'',
      ''SPEECHIO_ASR_ZH00015'',
      ''SPEECHIO_ASR_ZH00016'',
      ''SPEECHIO_ASR_ZH00017'',
      ''SPEECHIO_ASR_ZH00018'',
      ''SPEECHIO_ASR_ZH00019'',
      ''SPEECHIO_ASR_ZH00020'',
      ''SPEECHIO_ASR_ZH00021'',
      ''SPEECHIO_ASR_ZH00022'',
      ''SPEECHIO_ASR_ZH00023'',
      ''SPEECHIO_ASR_ZH00024'',
      ''SPEECHIO_ASR_ZH00025'',
      ''SPEECHIO_ASR_ZH00026'']"

subsection \<open>Reading a run\<close>

text \<open>The paths handed to \<open>load_manifest_lazy\<close>, in order.\<close>

fun loads :: "'c call list \<Rightarrow> path list" where
  "loads [] = []"
| "loads (CallLoad p # calls) = p # loads calls"
| "loads (_ # calls) = loads calls"

text \<open>The handles handed to \<open>len\<close>, in order.\<close>

fun lens :: "'c call list \<Rightarrow> 'c list" where
  "lens [] = []"
| "lens (CallLen c # calls) = c # lens calls"
| "lens (_ # calls) = lens calls"

text \<open>A run that only logs and opens: no \<open>len\<close>, no \<open>mux\<close>.\<close>

fun opens_only :: "'c call list \<Rightarrow> bool" where
  "opens_only [] = True"
| "opens_only (CallInfo _ # calls) = opens_only calls"
| "opens_only (CallLoad _ # calls) = opens_only calls"
| "opens_only (_ # calls) = False"


text \<open>What a call raised, if it raised: logging does not.\<close>

fun raised :: "('c, 'e) lhotse \<Rightarrow> 'c call \<Rightarrow> 'e option" where
  "raised lib (CallInfo msg) = None"
| "raised lib (CallLoad p) = (case load_manifest_lazy lib p of Inl e \<Rightarrow> Some e | Inr c \<Rightarrow> None)"
| "raised lib (CallLen c) = (case len lib c of Inl e \<Rightarrow> Some e | Inr n \<Rightarrow> None)"
| "raised lib (CallMux cs ws) = (case mux lib cs ws of Inl e \<Rightarrow> Some e | Inr u \<Rightarrow> None)"

text \<open>
  A run that ended in an error ended at the call that raised it, with that error:
  nothing was caught, nothing replaced, nothing ran afterwards.
\<close>

definition ends_at_raise :: "('c, 'e) lhotse \<Rightarrow> ('c, 'e, 'a) run \<Rightarrow> bool" where
  "ends_at_raise lib m =
     (case snd m of
        Inl e \<Rightarrow> fst m \<noteq> [] \<and> raised lib (last (fst m)) = Some e
      | Inr a \<Rightarrow> True)"

subsection \<open>The accessors side by side\<close>

text \<open>
  The methods return a handle or a \<open>dict\<close> of handles. To speak of all of them at once,
  each is listed with its name, the manifests it names under the root, and its run with
  the result tagged by its shape.
\<close>

datatype 'c result = Cuts 'c | Mapping "(string, 'c) dict"

definition as_result :: "('a \<Rightarrow> 'c result) \<Rightarrow> ('c, 'e, 'a) run \<Rightarrow> ('c, 'e, 'c result) run" where
  "as_result shape m = (fst m, case snd m of Inl e \<Rightarrow> Inl e | Inr a \<Rightarrow> Inr (shape a))"

definition speechio_path :: "path \<Rightarrow> string \<Rightarrow> path" where
  "speechio_path root name = Slash root (''speechio_cuts_'' @ name @ ''.jsonl.gz'')"

definition accessors ::
  "('c, 'e) lhotse \<Rightarrow> MultiDataset \<Rightarrow> (string \<times> path list \<times> ('c, 'e, 'c result) run) list" where
  "accessors lib self =
     [(''train_cuts'', map (resolve (fbank_dir self)) train_catalog,
         as_result Cuts (train_cuts lib self)),
      (''dev_cuts'', [resolve (fbank_dir self) [''wenetspeech'', ''cuts_DEV_fixed.jsonl.gz'']],
         as_result Cuts (dev_cuts lib self)),
      (''test_cuts'', map (\<lambda>entry. resolve (fbank_dir self) (snd entry)) test_catalog,
         as_result Mapping (test_cuts lib self)),
      (''aishell_train_cuts'', [resolve (fbank_dir self) [''aishell_cuts_train.jsonl.gz'']],
         as_result Cuts (aishell_train_cuts lib self)),
      (''aishell_dev_cuts'', [resolve (fbank_dir self) [''aishell_cuts_dev.jsonl.gz'']],
         as_result Cuts (aishell_dev_cuts lib self)),
      (''aishell_test_cuts'', [resolve (fbank_dir self) [''aishell_cuts_test.jsonl.gz'']],
         as_result Mapping (aishell_test_cuts lib self)),
      (''aishell2_train_cuts'', [resolve (fbank_dir self) [''aishell2_cuts_train.jsonl.gz'']],
         as_result Cuts (aishell2_train_cuts lib self)),
      (''aishell2_dev_cuts'', [resolve (fbank_dir self) [''aishell2_cuts_dev.jsonl.gz'']],
         as_result Cuts (aishell2_dev_cuts lib self)),
      (''aishell2_test_cuts'', [resolve (fbank_dir self) [''aishell2_cuts_test.jsonl.gz'']],
         as_result Mapping (aishell2_test_cuts lib self)),
      (''wenetspeech_test_meeting_cuts'',
         [resolve (fbank_dir self) [''wenetspeech'', ''cuts_TEST_MEETING.jsonl.gz'']],
         as_result Mapping (wenetspeech_test_meeting_cuts lib self)),
      (''speechio_test_cuts'', map (speechio_path (fbank_dir self)) speechio_names,
         as_result Mapping (speechio_test_cuts lib self))]"



subsection \<open>A library to run the methods on\<close>

text \<open>
  The directory is a table from the manifests that exist to their number of cuts. A
  handle is the path it was opened from, or a union of handles with weights. \<open>len\<close>
  of an opened manifest counts its cuts and so needs the file; with \<open>eager\<close> the file
  is also looked for when it is opened, without it opening never fails.
\<close>

datatype cuts = LazyCuts path | MuxCuts "cuts list" "int list"

datatype io_error = FileNotFoundError path | NotSized

definition sample_lhotse :: "bool \<Rightarrow> (path \<times> int) list \<Rightarrow> (cuts, io_error) lhotse" where
  "sample_lhotse eager files =
     \<lparr>load_manifest_lazy =
        (\<lambda>p. if eager \<and> map_of files p = None then Inl (FileNotFoundError p)
             else Inr (LazyCuts p)),
      len =
        (\<lambda>c. case c of
                LazyCuts p \<Rightarrow>
                  (case map_of files p of
                     None \<Rightarrow> Inl (FileNotFoundError p)
                   | Some n \<Rightarrow> Inr n)
              | MuxCuts cs ws \<Rightarrow> Inl NotSized),
      mux = (\<lambda>cs ws. Inr (MuxCuts cs ws))\<rparr>"

definition sample_self :: MultiDataset where
  "sample_self = \<lparr>fbank_dir = Path ''data/fbank''\<rparr>"

text \<open>A directory with the thirteen training manifests and nothing else.\<close>

definition sample_train_files :: "(path \<times> int) list" where
  "sample_train_files =
     zip (map (resolve (Path ''data/fbank'')) train_catalog)
         [13388, 120098, 1009223, 2724, 1520, 2911, 209792, 102600, 50384, 573480,
          14625245, 888428, 113366]"


section \<open>Properties\<close>

subsection \<open>How a run ends\<close>

lemma snd_bind_Inr: "(snd (bind m f) = Inr u) = (\<exists>a. snd m = Inr a \<and> snd (f a) = Inr u)"
  by (cases "snd m") (simp_all add: bind_def)

lemma snd_calls [simp]:
  "snd (logging_info msg) = Inr ()"
  "snd (call_load lib p) = load_manifest_lazy lib p"
  "snd (call_len lib c) = len lib c"
  "snd (call_mux lib cs ws) = mux lib cs ws"
  "snd (return a) = Inr a"
  by (simp_all add: logging_info_def call_load_def call_len_def call_mux_def return_def)

lemma all_less_13: "(\<forall>i<13. P (i::nat)) = (P 0 \<and> P 1 \<and> P 2 \<and> P 3 \<and> P 4 \<and> P 5 \<and> P 6 \<and> P 7 \<and> P 8 \<and> P 9 \<and> P 10 \<and> P 11 \<and> P 12)"
proof -
  have "{..<13::nat} = {0,1,2,3,4,5,6,7,8,9,10,11,12}" by auto arith
  then have "(\<forall>i<13. P (i::nat)) = (\<forall>i\<in>{0,1,2,3,4,5,6,7,8,9,10,11,12}. P i)"
    by (metis lessThan_iff)
  then show ?thesis by simp
qed

lemma length_13: "length xs = 13 \<Longrightarrow> \<exists>x0 x1 x2 x3 x4 x5 x6 x7 x8 x9 x10 x11 x12. xs = [x0,x1,x2,x3,x4,x5,x6,x7,x8,x9,x10,x11,x12]"
  by (simp add: numeral_eq_Suc length_Suc_conv) blast

lemma sample_load [simp]:
  "load_manifest_lazy (sample_lhotse eager files) p = (if eager \<and> map_of files p = None then Inl (FileNotFoundError p) else Inr (LazyCuts p))"
  "len (sample_lhotse eager files) (LazyCuts p) = (case map_of files p of None \<Rightarrow> Inl (FileNotFoundError p) | Some n \<Rightarrow> Inr n)"
  "mux (sample_lhotse eager files) cs ws = Inr (MuxCuts cs ws)"
  by (simp_all add: sample_lhotse_def)

lemma train_cuts_returns:
  "(snd (train_cuts lib self) = Inr u) =
     (\<exists>c0 c1 c2 c3 c4 c5 c6 c7 c8 c9 c10 c11 c12 w0 w1 w2 w3 w4 w5 w6 w7 w8 w9 w10 w11 w12.
        (\<forall>i<13. load_manifest_lazy lib (resolve (fbank_dir self) (train_catalog ! i))
                   = Inr ([c0, c1, c2, c3, c4, c5, c6, c7, c8, c9, c10, c11, c12] ! i)
               \<and> len lib ([c0, c1, c2, c3, c4, c5, c6, c7, c8, c9, c10, c11, c12] ! i)
                   = Inr ([w0, w1, w2, w3, w4, w5, w6, w7, w8, w9, w10, w11, w12] ! i)) \<and>
        mux lib [c0, c1, c2, c3, c4, c5, c6, c7, c8, c9, c10, c11, c12]
                [w0, w1, w2, w3, w4, w5, w6, w7, w8, w9, w10, w11, w12] = Inr u)"
  apply (simp add: train_cuts_def snd_bind_Inr all_less_13 train_catalog_def resolve_def)
  apply (rule iffI)
   apply (elim exE conjE)
   apply (intro exI conjI; assumption)
  apply (elim exE conjE)
  apply (intro exI conjI; assumption)
  done


subsection \<open>The training union\<close>

text \<open>
  C1. \<open>train_cuts\<close> returns \<open>u\<close> exactly when there are thirteen handles \<open>cs\<close> and
  thirteen weights \<open>ws\<close> such that, for every position \<open>i\<close> of the catalogue,
  \<open>load_manifest_lazy\<close> returned \<open>cs ! i\<close> for the \<open>i\<close>-th training manifest under the
  root, \<open>len\<close> returned \<open>ws ! i\<close> for that handle, and \<open>u\<close> is what \<open>CutSet.mux\<close> returned
  for the sources \<open>cs\<close> with the weights \<open>ws\<close>. So whatever the root, a returned union has
  thirteen sources, as many weights, and the \<open>i\<close>-th weight is the cardinality of the
  \<open>i\<close>-th source; and whenever the library calls return, so does \<open>train_cuts\<close>.
\<close>

theorem train_cuts_weighted_union:
  "length train_catalog = 13 \<and>
   ((snd (train_cuts lib self) = Inr u) =
     (\<exists>cs ws. length cs = 13 \<and> length ws = length cs \<and>
        (\<forall>i<13. load_manifest_lazy lib (resolve (fbank_dir self) (train_catalog ! i)) = Inr (cs ! i)
               \<and> len lib (cs ! i) = Inr (ws ! i)) \<and>
        mux lib cs ws = Inr u))"
proof (intro conjI iffI)
  show "length train_catalog = 13" by (simp add: train_catalog_def)
next
  assume "snd (train_cuts lib self) = Inr u"
  then have "\<exists>c0 c1 c2 c3 c4 c5 c6 c7 c8 c9 c10 c11 c12 w0 w1 w2 w3 w4 w5 w6 w7 w8 w9 w10 w11 w12.
        (\<forall>i<13. load_manifest_lazy lib (resolve (fbank_dir self) (train_catalog ! i))
                   = Inr ([c0, c1, c2, c3, c4, c5, c6, c7, c8, c9, c10, c11, c12] ! i)
               \<and> len lib ([c0, c1, c2, c3, c4, c5, c6, c7, c8, c9, c10, c11, c12] ! i)
                   = Inr ([w0, w1, w2, w3, w4, w5, w6, w7, w8, w9, w10, w11, w12] ! i)) \<and>
        mux lib [c0, c1, c2, c3, c4, c5, c6, c7, c8, c9, c10, c11, c12]
                [w0, w1, w2, w3, w4, w5, w6, w7, w8, w9, w10, w11, w12] = Inr u"
    unfolding train_cuts_returns .
  then show "\<exists>cs ws. length cs = 13 \<and> length ws = length cs \<and>
        (\<forall>i<13. load_manifest_lazy lib (resolve (fbank_dir self) (train_catalog ! i)) = Inr (cs ! i)
               \<and> len lib (cs ! i) = Inr (ws ! i)) \<and>
        mux lib cs ws = Inr u"
    apply (elim exE conjE)
    subgoal for c0 c1 c2 c3 c4 c5 c6 c7 c8 c9 c10 c11 c12 w0 w1 w2 w3 w4 w5 w6 w7 w8 w9 w10 w11 w12
      apply (rule exI [of _ "[c0, c1, c2, c3, c4, c5, c6, c7, c8, c9, c10, c11, c12]"])
      apply (rule exI [of _ "[w0, w1, w2, w3, w4, w5, w6, w7, w8, w9, w10, w11, w12]"])
      apply (intro conjI)
         apply simp
        apply simp
       apply assumption
      apply assumption
      done
    done
next
  assume "\<exists>cs ws. length cs = 13 \<and> length ws = length cs \<and>
        (\<forall>i<13. load_manifest_lazy lib (resolve (fbank_dir self) (train_catalog ! i)) = Inr (cs ! i)
               \<and> len lib (cs ! i) = Inr (ws ! i)) \<and>
        mux lib cs ws = Inr u"
  then obtain cs ws where l: "length cs = 13" "length ws = 13"
    and *: "\<forall>i<13. load_manifest_lazy lib (resolve (fbank_dir self) (train_catalog ! i)) = Inr (cs ! i)
               \<and> len lib (cs ! i) = Inr (ws ! i)"
    and m: "mux lib cs ws = Inr u"
    by auto
  from length_13 [OF l(1)] obtain c0 c1 c2 c3 c4 c5 c6 c7 c8 c9 c10 c11 c12
    where cs: "cs = [c0, c1, c2, c3, c4, c5, c6, c7, c8, c9, c10, c11, c12]" by blast
  from length_13 [OF l(2)] obtain w0 w1 w2 w3 w4 w5 w6 w7 w8 w9 w10 w11 w12
    where ws: "ws = [w0, w1, w2, w3, w4, w5, w6, w7, w8, w9, w10, w11, w12]" by blast
  show "snd (train_cuts lib self) = Inr u"
    unfolding train_cuts_returns
    apply (intro exI conjI)
     apply (rule * [unfolded cs ws])
    apply (rule m [unfolded cs ws])
    done
qed

theorem train_cuts_weighted_union_witness:
  "snd (train_cuts (sample_lhotse True sample_train_files) sample_self) =
     Inr (MuxCuts (map (\<lambda>segments. LazyCuts (resolve (Path ''data/fbank'') segments)) train_catalog)
                  (map snd sample_train_files))"
proof -
  let ?cs = "map (\<lambda>segments. LazyCuts (resolve (Path ''data/fbank'') segments)) train_catalog"
  let ?ws = "map snd sample_train_files"
  have "length ?cs = 13 \<and> length ?ws = length ?cs \<and>
        (\<forall>i<13. load_manifest_lazy (sample_lhotse True sample_train_files)
                   (resolve (fbank_dir sample_self) (train_catalog ! i)) = Inr (?cs ! i)
               \<and> len (sample_lhotse True sample_train_files) (?cs ! i) = Inr (?ws ! i)) \<and>
        mux (sample_lhotse True sample_train_files) ?cs ?ws = Inr (MuxCuts ?cs ?ws)"
    by (simp add: all_less_13 train_catalog_def sample_train_files_def sample_self_def resolve_def)
  then show ?thesis
    using train_cuts_weighted_union [of "sample_lhotse True sample_train_files" sample_self "MuxCuts ?cs ?ws"]
    by blast
qed

subsection \<open>The calls of a run\<close>

lemma fst_bind: "fst (bind m f) = (case snd m of Inl e \<Rightarrow> fst m | Inr a \<Rightarrow> fst m @ fst (f a))"
  by (simp add: bind_def split: sum.splits)

lemma snd_bind: "snd (bind m f) = (case snd m of Inl e \<Rightarrow> Inl e | Inr a \<Rightarrow> snd (f a))"
  by (simp add: bind_def split: sum.splits)

lemma fst_calls [simp]:
  "fst (logging_info msg) = [CallInfo msg]"
  "fst (call_load lib p) = [CallLoad p]"
  "fst (call_len lib c) = [CallLen c]"
  "fst (call_mux lib cs ws) = [CallMux cs ws]"
  "fst (return a) = []"
  by (simp_all add: logging_info_def call_load_def call_len_def call_mux_def return_def)

lemma opens_only_append [simp]: "opens_only (xs @ ys) = (opens_only xs \<and> opens_only ys)"
  by (induction xs rule: opens_only.induct) auto

lemma loads_append [simp]: "loads (xs @ ys) = loads xs @ loads ys"
  by (induction xs rule: loads.induct) auto

lemma lens_append [simp]: "lens (xs @ ys) = lens xs @ lens ys"
  by (induction xs rule: lens.induct) auto

lemma opens_only_bind:
  "opens_only (fst m) \<Longrightarrow> (\<And>a. opens_only (fst (f a))) \<Longrightarrow> opens_only (fst (bind m f))"
  by (simp add: fst_bind split: sum.splits)

lemma opens_only_calls:
  "opens_only (fst (logging_info msg))"
  "opens_only (fst (call_load lib p))"
  "opens_only (fst (return a))"
  by simp_all

lemma opens_only_results_loop: "opens_only (fst (results_loop lib self pre suf ks d0))"
  by (induction ks arbitrary: d0) (auto simp: Let_def intro!: opens_only_bind)

lemma opens_only_test_cuts: "opens_only (fst (test_cuts lib self))"
  unfolding test_cuts_def by (intro opens_only_bind opens_only_calls)

lemma opens_only_speechio: "opens_only (fst (speechio_test_cuts lib self))"
  unfolding speechio_test_cuts_def Let_def by (intro opens_only_bind opens_only_calls opens_only_results_loop)

lemma opens_only_narrow:
  "opens_only (fst (dev_cuts lib self))"
  "opens_only (fst (aishell_train_cuts lib self))"
  "opens_only (fst (aishell_dev_cuts lib self))"
  "opens_only (fst (aishell_test_cuts lib self))"
  "opens_only (fst (aishell2_train_cuts lib self))"
  "opens_only (fst (aishell2_dev_cuts lib self))"
  "opens_only (fst (aishell2_test_cuts lib self))"
  "opens_only (fst (wenetspeech_test_meeting_cuts lib self))"
  unfolding dev_cuts_def aishell_train_cuts_def aishell_dev_cuts_def aishell_test_cuts_def
    aishell2_train_cuts_def aishell2_dev_cuts_def aishell2_test_cuts_def wenetspeech_test_meeting_cuts_def
  by (intro opens_only_bind opens_only_calls)+

lemma fst_as_result [simp]: "fst (as_result shape m) = fst m"
  by (simp add: as_result_def)

lemma snd_as_result: "snd (as_result shape m) = (case snd m of Inl e \<Rightarrow> Inl e | Inr a \<Rightarrow> Inr (shape a))"
  by (simp add: as_result_def)

lemma train_cuts_calls:
  assumes "snd (train_cuts lib self) = Inr u"
  shows "loads (fst (train_cuts lib self)) =
           [resolve (fbank_dir self) [''thchs_30_cuts_train.jsonl.gz''],
            resolve (fbank_dir self) [''aishell_cuts_train.jsonl.gz''],
            resolve (fbank_dir self) [''aishell2_cuts_train.jsonl.gz''],
            resolve (fbank_dir self) [''aishell4_cuts_train_L.jsonl.gz''],
            resolve (fbank_dir self) [''aishell4_cuts_train_M.jsonl.gz''],
            resolve (fbank_dir self) [''aishell4_cuts_train_S.jsonl.gz''],
            resolve (fbank_dir self) [''stcmds_cuts_train.jsonl.gz''],
            resolve (fbank_dir self) [''primewords_cuts_train.jsonl.gz''],
            resolve (fbank_dir self) [''magicdata_cuts_train.jsonl.gz''],
            resolve (fbank_dir self) [''alimeeting-far_cuts_train.jsonl.gz''],
            resolve (fbank_dir self) [''wenetspeech'', ''cuts_L_fixed.jsonl.gz''],
            resolve (fbank_dir self) [''kespeech'', ''kespeech-asr_cuts_train_phase1.jsonl.gz''],
            resolve (fbank_dir self) [''kespeech'', ''kespeech-asr_cuts_train_phase2.jsonl.gz'']]"
    and "\<exists>cs. length cs = 13 \<and>
           (\<forall>i<13. load_manifest_lazy lib (resolve (fbank_dir self) (train_catalog ! i)) = Inr (cs ! i)) \<and>
           lens (fst (train_cuts lib self)) = cs"
proof -
  from assms have "\<exists>c0 c1 c2 c3 c4 c5 c6 c7 c8 c9 c10 c11 c12 w0 w1 w2 w3 w4 w5 w6 w7 w8 w9 w10 w11 w12.
        (\<forall>i<13. load_manifest_lazy lib (resolve (fbank_dir self) (train_catalog ! i))
                   = Inr ([c0, c1, c2, c3, c4, c5, c6, c7, c8, c9, c10, c11, c12] ! i)
               \<and> len lib ([c0, c1, c2, c3, c4, c5, c6, c7, c8, c9, c10, c11, c12] ! i)
                   = Inr ([w0, w1, w2, w3, w4, w5, w6, w7, w8, w9, w10, w11, w12] ! i)) \<and>
        mux lib [c0, c1, c2, c3, c4, c5, c6, c7, c8, c9, c10, c11, c12] [w0, w1, w2, w3, w4, w5, w6, w7, w8, w9, w10, w11, w12] = Inr u"
    unfolding train_cuts_returns .
  then obtain c0 c1 c2 c3 c4 c5 c6 c7 c8 c9 c10 c11 c12 w0 w1 w2 w3 w4 w5 w6 w7 w8 w9 w10 w11 w12 where
    E: "\<forall>i<13. load_manifest_lazy lib (resolve (fbank_dir self) (train_catalog ! i))
                   = Inr ([c0, c1, c2, c3, c4, c5, c6, c7, c8, c9, c10, c11, c12] ! i)
               \<and> len lib ([c0, c1, c2, c3, c4, c5, c6, c7, c8, c9, c10, c11, c12] ! i)
                   = Inr ([w0, w1, w2, w3, w4, w5, w6, w7, w8, w9, w10, w11, w12] ! i)"
    by (elim exE conjE)
  have E': "load_manifest_lazy lib (Slash (fbank_dir self) ''thchs_30_cuts_train.jsonl.gz'') = Inr c0"
      "load_manifest_lazy lib (Slash (fbank_dir self) ''aishell_cuts_train.jsonl.gz'') = Inr c1"
      "load_manifest_lazy lib (Slash (fbank_dir self) ''aishell2_cuts_train.jsonl.gz'') = Inr c2"
      "load_manifest_lazy lib (Slash (fbank_dir self) ''aishell4_cuts_train_L.jsonl.gz'') = Inr c3"
      "load_manifest_lazy lib (Slash (fbank_dir self) ''aishell4_cuts_train_M.jsonl.gz'') = Inr c4"
      "load_manifest_lazy lib (Slash (fbank_dir self) ''aishell4_cuts_train_S.jsonl.gz'') = Inr c5"
      "load_manifest_lazy lib (Slash (fbank_dir self) ''stcmds_cuts_train.jsonl.gz'') = Inr c7"
      "load_manifest_lazy lib (Slash (fbank_dir self) ''primewords_cuts_train.jsonl.gz'') = Inr c8"
      "load_manifest_lazy lib (Slash (fbank_dir self) ''magicdata_cuts_train.jsonl.gz'') = Inr c9"
      "load_manifest_lazy lib (Slash (fbank_dir self) ''alimeeting-far_cuts_train.jsonl.gz'') = Inr c6"
      "load_manifest_lazy lib (Slash (Slash (fbank_dir self) ''wenetspeech'') ''cuts_L_fixed.jsonl.gz'') = Inr c10"
      "load_manifest_lazy lib (Slash (Slash (fbank_dir self) ''kespeech'') ''kespeech-asr_cuts_train_phase1.jsonl.gz'') = Inr c11"
      "load_manifest_lazy lib (Slash (Slash (fbank_dir self) ''kespeech'') ''kespeech-asr_cuts_train_phase2.jsonl.gz'') = Inr c12"
      "len lib c0 = Inr w0"
      "len lib c1 = Inr w1"
      "len lib c2 = Inr w2"
      "len lib c3 = Inr w3"
      "len lib c4 = Inr w4"
      "len lib c5 = Inr w5"
      "len lib c6 = Inr w6"
      "len lib c7 = Inr w7"
      "len lib c8 = Inr w8"
      "len lib c9 = Inr w9"
      "len lib c10 = Inr w10"
      "len lib c11 = Inr w11"
      "len lib c12 = Inr w12"
    using E by (simp_all add: all_less_13 train_catalog_def resolve_def)
  show "loads (fst (train_cuts lib self)) =
           [resolve (fbank_dir self) [''thchs_30_cuts_train.jsonl.gz''],
            resolve (fbank_dir self) [''aishell_cuts_train.jsonl.gz''],
            resolve (fbank_dir self) [''aishell2_cuts_train.jsonl.gz''],
            resolve (fbank_dir self) [''aishell4_cuts_train_L.jsonl.gz''],
            resolve (fbank_dir self) [''aishell4_cuts_train_M.jsonl.gz''],
            resolve (fbank_dir self) [''aishell4_cuts_train_S.jsonl.gz''],
            resolve (fbank_dir self) [''stcmds_cuts_train.jsonl.gz''],
            resolve (fbank_dir self) [''primewords_cuts_train.jsonl.gz''],
            resolve (fbank_dir self) [''magicdata_cuts_train.jsonl.gz''],
            resolve (fbank_dir self) [''alimeeting-far_cuts_train.jsonl.gz''],
            resolve (fbank_dir self) [''wenetspeech'', ''cuts_L_fixed.jsonl.gz''],
            resolve (fbank_dir self) [''kespeech'', ''kespeech-asr_cuts_train_phase1.jsonl.gz''],
            resolve (fbank_dir self) [''kespeech'', ''kespeech-asr_cuts_train_phase2.jsonl.gz'']]"
    unfolding train_cuts_def by (simp add: fst_bind E' resolve_def)
  have "lens (fst (train_cuts lib self)) = [c0, c1, c2, c3, c4, c5, c6, c7, c8, c9, c10, c11, c12]"
    unfolding train_cuts_def by (simp add: fst_bind E')
  then show "\<exists>cs. length cs = 13 \<and>
           (\<forall>i<13. load_manifest_lazy lib (resolve (fbank_dir self) (train_catalog ! i)) = Inr (cs ! i)) \<and>
           lens (fst (train_cuts lib self)) = cs"
    using E by simp
qed

subsection \<open>The test mapping\<close>

lemma all_less_15: "(\<forall>i<15. P (i::nat)) = (P 0 \<and> P 1 \<and> P 2 \<and> P 3 \<and> P 4 \<and> P 5 \<and> P 6 \<and> P 7 \<and> P 8 \<and> P 9 \<and> P 10 \<and> P 11 \<and> P 12 \<and> P 13 \<and> P 14)"
proof -
  have "{..<15::nat} = {0,1,2,3,4,5,6,7,8,9,10,11,12,13,14}" by auto arith
  then have "(\<forall>i<15. P (i::nat)) = (\<forall>i\<in>{0,1,2,3,4,5,6,7,8,9,10,11,12,13,14}. P i)"
    by (metis lessThan_iff)
  then show ?thesis by simp
qed

lemma length_15: "length xs = 15 \<Longrightarrow> \<exists>x0 x1 x2 x3 x4 x5 x6 x7 x8 x9 x10 x11 x12 x13 x14. xs = [x0, x1, x2, x3, x4, x5, x6, x7, x8, x9, x10, x11, x12, x13, x14]"
  by (simp add: numeral_eq_Suc length_Suc_conv) blast

lemma test_cuts_returns:
  "(snd (test_cuts lib self) = Inr d) =
     (\<exists>c0 c1 c2 c3 c4 c5 c6 c7 c8 c9 c10 c11 c12 c13 c14.
        (\<forall>i<15. load_manifest_lazy lib (resolve (fbank_dir self) (snd (test_catalog ! i)))
                   = Inr ([c0, c1, c2, c3, c4, c5, c6, c7, c8, c9, c10, c11, c12, c13, c14] ! i)) \<and>
        d = zip (map fst test_catalog) [c0, c1, c2, c3, c4, c5, c6, c7, c8, c9, c10, c11, c12, c13, c14])"
  apply (simp add: test_cuts_def snd_bind_Inr all_less_15 test_catalog_def resolve_def dict_display_def)
  apply (rule iffI)
   apply (elim exE conjE)
   apply hypsubst
   apply (intro exI conjI; (assumption | rule refl))
  apply (elim exE conjE)
  apply hypsubst
  apply (intro exI conjI; (assumption | rule refl))
  done

text \<open>
  C4. The keys of the catalogue of \<open>test_cuts\<close> are the fifteen partition names, all
  different. \<open>test_cuts\<close> only logs and opens: it calls neither \<open>len\<close> nor \<open>mux\<close>, so
  no two partitions are combined. It returns \<open>d\<close> exactly when each of the fifteen
  manifests of the catalogue, joined to the root, was opened (\<open>cs ! i\<close> being the handle
  of the \<open>i\<close>-th), and \<open>d\<close> then pairs the \<open>i\<close>-th name with the \<open>i\<close>-th handle and has no
  other entry.
\<close>

theorem test_cuts_mapping:
  "map fst test_catalog =
     [''wenetspeech-meeting_test'', ''aishell_test'', ''aishell_dev'', ''ali-meeting_test'',
      ''ali-meeting_eval'', ''aishell-4_test'', ''aishell-2_test'', ''aishell-2_dev'',
      ''magicdata_test'', ''magicdata_dev'', ''kespeech-asr_test'', ''kespeech-asr_dev_phase1'',
      ''kespeech-asr_dev_phase2'', ''wenetspeech-net_test'', ''wenetspeech_dev''] \<and>
   distinct (map fst test_catalog) \<and>
   opens_only (fst (test_cuts lib self)) \<and>
   ((snd (test_cuts lib self) = Inr d) =
     (\<exists>cs. length cs = 15 \<and>
        (\<forall>i<15. load_manifest_lazy lib (resolve (fbank_dir self) (snd (test_catalog ! i))) = Inr (cs ! i)) \<and>
        d = zip (map fst test_catalog) cs))"
proof (intro conjI iffI)
  show "map fst test_catalog =
     [''wenetspeech-meeting_test'', ''aishell_test'', ''aishell_dev'', ''ali-meeting_test'',
      ''ali-meeting_eval'', ''aishell-4_test'', ''aishell-2_test'', ''aishell-2_dev'',
      ''magicdata_test'', ''magicdata_dev'', ''kespeech-asr_test'', ''kespeech-asr_dev_phase1'',
      ''kespeech-asr_dev_phase2'', ''wenetspeech-net_test'', ''wenetspeech_dev'']"
    by (simp add: test_catalog_def)
next
  show "distinct (map fst test_catalog)" by (simp add: test_catalog_def)
next
  show "opens_only (fst (test_cuts lib self))" by (rule opens_only_test_cuts)
next
  assume "snd (test_cuts lib self) = Inr d"
  then have "\<exists>c0 c1 c2 c3 c4 c5 c6 c7 c8 c9 c10 c11 c12 c13 c14.
        (\<forall>i<15. load_manifest_lazy lib (resolve (fbank_dir self) (snd (test_catalog ! i)))
                   = Inr ([c0, c1, c2, c3, c4, c5, c6, c7, c8, c9, c10, c11, c12, c13, c14] ! i)) \<and>
        d = zip (map fst test_catalog) [c0, c1, c2, c3, c4, c5, c6, c7, c8, c9, c10, c11, c12, c13, c14]"
    unfolding test_cuts_returns .
  then show "\<exists>cs. length cs = 15 \<and>
        (\<forall>i<15. load_manifest_lazy lib (resolve (fbank_dir self) (snd (test_catalog ! i))) = Inr (cs ! i)) \<and>
        d = zip (map fst test_catalog) cs"
    apply (elim exE conjE)
    subgoal for c0 c1 c2 c3 c4 c5 c6 c7 c8 c9 c10 c11 c12 c13 c14
      apply (rule exI [of _ "[c0, c1, c2, c3, c4, c5, c6, c7, c8, c9, c10, c11, c12, c13, c14]"])
      apply (intro conjI)
        apply simp
       apply assumption
      apply assumption
      done
    done
next
  assume "\<exists>cs. length cs = 15 \<and>
        (\<forall>i<15. load_manifest_lazy lib (resolve (fbank_dir self) (snd (test_catalog ! i))) = Inr (cs ! i)) \<and>
        d = zip (map fst test_catalog) cs"
  then obtain cs where l: "length cs = 15"
    and *: "\<forall>i<15. load_manifest_lazy lib (resolve (fbank_dir self) (snd (test_catalog ! i))) = Inr (cs ! i)"
    and d: "d = zip (map fst test_catalog) cs"
    by auto
  from length_15 [OF l] obtain c0 c1 c2 c3 c4 c5 c6 c7 c8 c9 c10 c11 c12 c13 c14
    where cs: "cs = [c0, c1, c2, c3, c4, c5, c6, c7, c8, c9, c10, c11, c12, c13, c14]" by blast
  show "snd (test_cuts lib self) = Inr d"
    unfolding test_cuts_returns
    apply (intro exI conjI)
     apply (rule * [unfolded cs])
    apply (rule d [unfolded cs])
    done
qed

subsection \<open>The generated partitions\<close>

lemma dataset_parts_value: "dataset_parts_loop (range_int 0 (26 + 1)) [] = speechio_names"
  by code_simp

lemma dict_setitem_fresh: "k \<notin> fst ` set d \<Longrightarrow> dict_setitem d k v = d @ [(k, v)]"
  by (induction d k v rule: dict_setitem.induct) auto

lemma results_loop_returns:
  "distinct ks \<Longrightarrow> set ks \<inter> fst ` set d0 = {} \<Longrightarrow>
   (snd (results_loop lib self pre suf ks d0) = Inr d) =
     (\<exists>cs. list_all2 (\<lambda>k c. load_manifest_lazy lib (Slash (fbank_dir self) (pre @ ''_cuts_'' @ k @ ''.'' @ suf)) = Inr c) ks cs
         \<and> d = d0 @ zip ks cs)"
proof (induction ks arbitrary: d0)
  case Nil
  then show ?case by (auto simp: return_def)
next
  case (Cons k ks)
  have fresh: "k \<notin> fst ` set d0" using Cons.prems by auto
  have d: "distinct ks" using Cons.prems by simp
  have IH: "(snd (results_loop lib self pre suf ks (d0 @ [(k, a)])) = Inr d) =
     (\<exists>cs. list_all2 (\<lambda>k c. load_manifest_lazy lib (Slash (fbank_dir self) (pre @ ''_cuts_'' @ k @ ''.'' @ suf)) = Inr c) ks cs
         \<and> d = (d0 @ [(k, a)]) @ zip ks cs)" for a
    by (rule Cons.IH [OF d]) (use Cons.prems in auto)
  show ?case
    unfolding results_loop.simps Let_def snd_bind_Inr snd_calls dict_setitem_fresh [OF fresh] IH
    apply (auto simp: list_all2_Cons1)
    subgoal for a cs by (rule exI [of _ "a # cs"]) simp
    done
qed


lemma speechio_names_props: "length speechio_names = 27" "distinct speechio_names"
  by (simp_all add: speechio_names_def)

text \<open>
  C3. There are twenty-seven partition names, \<open>SPEECHIO_ASR_ZH00000\<close> to
  \<open>SPEECHIO_ASR_ZH00026\<close>, all different. \<open>speechio_test_cuts\<close> returns \<open>d\<close> exactly when
  for each name the file \<open>speechio_cuts_{name}.jsonl.gz\<close> under the root was opened
  (\<open>cs ! i\<close> being the handle of the \<open>i\<close>-th), and \<open>d\<close> then pairs the \<open>i\<close>-th name with
  the \<open>i\<close>-th handle and has no other entry.
\<close>

theorem speechio_test_cuts_entries:
  "length speechio_names = 27 \<and> distinct speechio_names \<and>
   ((snd (speechio_test_cuts lib self) = Inr d) =
     (\<exists>cs. length cs = 27 \<and>
        (\<forall>i<27. load_manifest_lazy lib
                   (Slash (fbank_dir self) (''speechio_cuts_'' @ speechio_names ! i @ ''.jsonl.gz''))
                 = Inr (cs ! i)) \<and>
        d = zip speechio_names cs))"
proof -
  have "(snd (speechio_test_cuts lib self) = Inr d) =
     (\<exists>cs. list_all2 (\<lambda>k c. load_manifest_lazy lib
                   (Slash (fbank_dir self) (''speechio'' @ ''_cuts_'' @ k @ ''.'' @ ''jsonl.gz'')) = Inr c)
                 speechio_names cs \<and> d = [] @ zip speechio_names cs)"
    unfolding speechio_test_cuts_def Let_def snd_bind_Inr snd_calls dataset_parts_value
    by (simp add: results_loop_returns [OF speechio_names_props(2)])
  also have "\<dots> = (\<exists>cs. length cs = 27 \<and>
        (\<forall>i<27. load_manifest_lazy lib
                   (Slash (fbank_dir self) (''speechio_cuts_'' @ speechio_names ! i @ ''.jsonl.gz''))
                 = Inr (cs ! i)) \<and>
        d = zip speechio_names cs)"
    by (simp add: list_all2_conv_all_nth speechio_names_props(1))
  finally show ?thesis by (simp add: speechio_names_props)
qed

subsection \<open>Runs on the sample library\<close>

lemma length_test_catalog: "length test_catalog = 15"
  by (simp add: test_catalog_def)

theorem speechio_test_cuts_entries_witness:
  "snd (speechio_test_cuts (sample_lhotse False []) sample_self) =
     Inr (zip speechio_names
            (map (\<lambda>name. LazyCuts (Slash (Path ''data/fbank'') (''speechio_cuts_'' @ name @ ''.jsonl.gz'')))
               speechio_names))"
proof -
  let ?cs = "map (\<lambda>name. LazyCuts (Slash (Path ''data/fbank'') (''speechio_cuts_'' @ name @ ''.jsonl.gz'')))
               speechio_names"
  have "length ?cs = 27 \<and>
        (\<forall>i<27. load_manifest_lazy (sample_lhotse False [])
                   (Slash (fbank_dir sample_self) (''speechio_cuts_'' @ speechio_names ! i @ ''.jsonl.gz''))
                 = Inr (?cs ! i)) \<and>
        zip speechio_names ?cs = zip speechio_names ?cs"
    by (simp add: speechio_names_props sample_self_def)
  then show ?thesis
    using speechio_test_cuts_entries [of "sample_lhotse False []" sample_self "zip speechio_names ?cs"]
    by blast
qed

theorem test_cuts_mapping_witness:
  "snd (test_cuts (sample_lhotse False []) sample_self) =
     Inr (zip (map fst test_catalog)
            (map (\<lambda>entry. LazyCuts (resolve (Path ''data/fbank'') (snd entry))) test_catalog))"
proof -
  let ?cs = "map (\<lambda>entry. LazyCuts (resolve (Path ''data/fbank'') (snd entry))) test_catalog"
  have "length ?cs = 15 \<and>
        (\<forall>i<15. load_manifest_lazy (sample_lhotse False [])
                   (resolve (fbank_dir sample_self) (snd (test_catalog ! i))) = Inr (?cs ! i)) \<and>
        zip (map fst test_catalog) ?cs = zip (map fst test_catalog) ?cs"
    by (simp add: length_test_catalog sample_self_def)
  then show ?thesis
    using test_cuts_mapping [of "sample_lhotse False []" sample_self "zip (map fst test_catalog) ?cs"]
    by blast
qed

subsection \<open>Construction\<close>

text \<open>
  C5. For every argument \<open>d\<close>, the constructor makes no call at all (no logging, no
  call into the library, so nothing that could look at a file), does not fail, and the
  object it makes holds \<open>Path d\<close> and nothing else. The library is not even an argument
  of the constructor: which manifests exist cannot change what it does, and a missing
  manifest can only be met by a later call of an accessor.
\<close>

theorem init_keeps_root: "init d = ([], Inr \<lparr>fbank_dir = Path d\<rparr>)"
  by (simp add: init_def return_def)


subsection \<open>The accessors of one corpus\<close>

text \<open>
  C8. \<open>aishell_train_cuts\<close>, \<open>aishell_dev_cuts\<close>, \<open>aishell2_train_cuts\<close> and
  \<open>aishell2_dev_cuts\<close> end exactly as their one call of \<open>load_manifest_lazy\<close> ends: they
  return the handle itself. \<open>aishell_test_cuts\<close>, \<open>aishell2_test_cuts\<close> and
  \<open>wenetspeech_test_meeting_cuts\<close> return a mapping with one entry, under the keys
  \<open>aishell_test\<close>, \<open>aishell2_test\<close> and \<open>wenetspeech-meeting_test\<close>. Each of the seven
  opens one manifest, the one of its corpus and split, and otherwise only logs.
\<close>

theorem narrow_accessor_shapes:
  "snd (aishell_train_cuts lib self) = load_manifest_lazy lib (Slash (fbank_dir self) ''aishell_cuts_train.jsonl.gz'') \<and>
   loads (fst (aishell_train_cuts lib self)) = [Slash (fbank_dir self) ''aishell_cuts_train.jsonl.gz''] \<and>
   opens_only (fst (aishell_train_cuts lib self)) \<and>
   snd (aishell_dev_cuts lib self) = load_manifest_lazy lib (Slash (fbank_dir self) ''aishell_cuts_dev.jsonl.gz'') \<and>
   loads (fst (aishell_dev_cuts lib self)) = [Slash (fbank_dir self) ''aishell_cuts_dev.jsonl.gz''] \<and>
   opens_only (fst (aishell_dev_cuts lib self)) \<and>
   snd (aishell2_train_cuts lib self) = load_manifest_lazy lib (Slash (fbank_dir self) ''aishell2_cuts_train.jsonl.gz'') \<and>
   loads (fst (aishell2_train_cuts lib self)) = [Slash (fbank_dir self) ''aishell2_cuts_train.jsonl.gz''] \<and>
   opens_only (fst (aishell2_train_cuts lib self)) \<and>
   snd (aishell2_dev_cuts lib self) = load_manifest_lazy lib (Slash (fbank_dir self) ''aishell2_cuts_dev.jsonl.gz'') \<and>
   loads (fst (aishell2_dev_cuts lib self)) = [Slash (fbank_dir self) ''aishell2_cuts_dev.jsonl.gz''] \<and>
   opens_only (fst (aishell2_dev_cuts lib self)) \<and>
   snd (aishell_test_cuts lib self) =
     (case load_manifest_lazy lib (Slash (fbank_dir self) ''aishell_cuts_test.jsonl.gz'') of
        Inl e \<Rightarrow> Inl e
      | Inr c \<Rightarrow> Inr [(''aishell_test'', c)]) \<and>
   loads (fst (aishell_test_cuts lib self)) = [Slash (fbank_dir self) ''aishell_cuts_test.jsonl.gz''] \<and>
   opens_only (fst (aishell_test_cuts lib self)) \<and>
   snd (aishell2_test_cuts lib self) =
     (case load_manifest_lazy lib (Slash (fbank_dir self) ''aishell2_cuts_test.jsonl.gz'') of
        Inl e \<Rightarrow> Inl e
      | Inr c \<Rightarrow> Inr [(''aishell2_test'', c)]) \<and>
   loads (fst (aishell2_test_cuts lib self)) = [Slash (fbank_dir self) ''aishell2_cuts_test.jsonl.gz''] \<and>
   opens_only (fst (aishell2_test_cuts lib self)) \<and>
   snd (wenetspeech_test_meeting_cuts lib self) =
     (case load_manifest_lazy lib (Slash (Slash (fbank_dir self) ''wenetspeech'') ''cuts_TEST_MEETING.jsonl.gz'') of
        Inl e \<Rightarrow> Inl e
      | Inr c \<Rightarrow> Inr [(''wenetspeech-meeting_test'', c)]) \<and>
   loads (fst (wenetspeech_test_meeting_cuts lib self)) = [Slash (Slash (fbank_dir self) ''wenetspeech'') ''cuts_TEST_MEETING.jsonl.gz''] \<and>
   opens_only (fst (wenetspeech_test_meeting_cuts lib self))"
  unfolding aishell_train_cuts_def aishell_dev_cuts_def aishell2_train_cuts_def aishell2_dev_cuts_def aishell_test_cuts_def aishell2_test_cuts_def wenetspeech_test_meeting_cuts_def
  by (simp add: fst_bind snd_bind dict_display_def split: sum.splits)

subsection \<open>More on runs\<close>

lemma test_cuts_calls:
  assumes "snd (test_cuts lib self) = Inr d"
  shows "loads (fst (test_cuts lib self)) =
           [resolve (fbank_dir self) [''aishell_cuts_test.jsonl.gz''],
            resolve (fbank_dir self) [''aishell_cuts_dev.jsonl.gz''],
            resolve (fbank_dir self) [''aishell2_cuts_test.jsonl.gz''],
            resolve (fbank_dir self) [''aishell2_cuts_dev.jsonl.gz''],
            resolve (fbank_dir self) [''aishell4_cuts_test.jsonl.gz''],
            resolve (fbank_dir self) [''alimeeting-far_cuts_test.jsonl.gz''],
            resolve (fbank_dir self) [''alimeeting-far_cuts_eval.jsonl.gz''],
            resolve (fbank_dir self) [''magicdata_cuts_test.jsonl.gz''],
            resolve (fbank_dir self) [''magicdata_cuts_dev.jsonl.gz''],
            resolve (fbank_dir self) [''kespeech'', ''kespeech-asr_cuts_test.jsonl.gz''],
            resolve (fbank_dir self) [''kespeech'', ''kespeech-asr_cuts_dev_phase1.jsonl.gz''],
            resolve (fbank_dir self) [''kespeech'', ''kespeech-asr_cuts_dev_phase2.jsonl.gz''],
            resolve (fbank_dir self) [''wenetspeech'', ''cuts_TEST_MEETING.jsonl.gz''],
            resolve (fbank_dir self) [''wenetspeech'', ''cuts_TEST_NET.jsonl.gz''],
            resolve (fbank_dir self) [''wenetspeech'', ''cuts_DEV_fixed.jsonl.gz'']]"
proof -
  from assms have "\<exists>c0 c1 c2 c3 c4 c5 c6 c7 c8 c9 c10 c11 c12 c13 c14.
        (\<forall>i<15. load_manifest_lazy lib (resolve (fbank_dir self) (snd (test_catalog ! i)))
                   = Inr ([c0, c1, c2, c3, c4, c5, c6, c7, c8, c9, c10, c11, c12, c13, c14] ! i)) \<and>
        d = zip (map fst test_catalog) [c0, c1, c2, c3, c4, c5, c6, c7, c8, c9, c10, c11, c12, c13, c14]"
    unfolding test_cuts_returns .
  then obtain c0 c1 c2 c3 c4 c5 c6 c7 c8 c9 c10 c11 c12 c13 c14 where
    E: "\<forall>i<15. load_manifest_lazy lib (resolve (fbank_dir self) (snd (test_catalog ! i)))
                   = Inr ([c0, c1, c2, c3, c4, c5, c6, c7, c8, c9, c10, c11, c12, c13, c14] ! i)"
    by (elim exE conjE)
  have E': "load_manifest_lazy lib (Slash (fbank_dir self) ''aishell_cuts_test.jsonl.gz'') = Inr c1"
      "load_manifest_lazy lib (Slash (fbank_dir self) ''aishell_cuts_dev.jsonl.gz'') = Inr c2"
      "load_manifest_lazy lib (Slash (fbank_dir self) ''aishell2_cuts_test.jsonl.gz'') = Inr c6"
      "load_manifest_lazy lib (Slash (fbank_dir self) ''aishell2_cuts_dev.jsonl.gz'') = Inr c7"
      "load_manifest_lazy lib (Slash (fbank_dir self) ''aishell4_cuts_test.jsonl.gz'') = Inr c5"
      "load_manifest_lazy lib (Slash (fbank_dir self) ''alimeeting-far_cuts_test.jsonl.gz'') = Inr c3"
      "load_manifest_lazy lib (Slash (fbank_dir self) ''alimeeting-far_cuts_eval.jsonl.gz'') = Inr c4"
      "load_manifest_lazy lib (Slash (fbank_dir self) ''magicdata_cuts_test.jsonl.gz'') = Inr c8"
      "load_manifest_lazy lib (Slash (fbank_dir self) ''magicdata_cuts_dev.jsonl.gz'') = Inr c9"
      "load_manifest_lazy lib (Slash (Slash (fbank_dir self) ''kespeech'') ''kespeech-asr_cuts_test.jsonl.gz'') = Inr c10"
      "load_manifest_lazy lib (Slash (Slash (fbank_dir self) ''kespeech'') ''kespeech-asr_cuts_dev_phase1.jsonl.gz'') = Inr c11"
      "load_manifest_lazy lib (Slash (Slash (fbank_dir self) ''kespeech'') ''kespeech-asr_cuts_dev_phase2.jsonl.gz'') = Inr c12"
      "load_manifest_lazy lib (Slash (Slash (fbank_dir self) ''wenetspeech'') ''cuts_TEST_MEETING.jsonl.gz'') = Inr c0"
      "load_manifest_lazy lib (Slash (Slash (fbank_dir self) ''wenetspeech'') ''cuts_TEST_NET.jsonl.gz'') = Inr c13"
      "load_manifest_lazy lib (Slash (Slash (fbank_dir self) ''wenetspeech'') ''cuts_DEV_fixed.jsonl.gz'') = Inr c14"
    using E by (simp_all add: all_less_15 test_catalog_def resolve_def)
  show ?thesis
    unfolding test_cuts_def by (simp add: fst_bind E' resolve_def)
qed

lemma loads_bind_subset:
  "set (loads (fst m)) \<subseteq> S \<Longrightarrow> (\<And>a. set (loads (fst (f a))) \<subseteq> S) \<Longrightarrow> set (loads (fst (bind m f))) \<subseteq> S"
  by (simp add: fst_bind split: sum.splits)

lemma loads_calls [simp]:
  "loads (fst (logging_info msg)) = []"
  "loads (fst (call_load lib p)) = [p]"
  "loads (fst (call_len lib c)) = []"
  "loads (fst (call_mux lib cs ws)) = []"
  "loads (fst (return a)) = []"
  by simp_all

lemma train_cuts_loads_subset:
  "set (loads (fst (train_cuts lib self))) \<subseteq> set (map (resolve (fbank_dir self)) train_catalog)"
  unfolding train_cuts_def
  by (intro loads_bind_subset; simp add: train_catalog_def resolve_def)

lemma test_cuts_loads_subset:
  "set (loads (fst (test_cuts lib self))) \<subseteq> set (map (\<lambda>entry. resolve (fbank_dir self) (snd entry)) test_catalog)"
  unfolding test_cuts_def
  by (intro loads_bind_subset; simp add: test_catalog_def resolve_def)

lemma catalogs_disjoint:
  "set (map (resolve root) train_catalog) \<inter> set (map (\<lambda>entry. resolve root (snd entry)) test_catalog) = {}"
  by (simp add: train_catalog_def test_catalog_def resolve_def)

lemma ends_at_raise_bind:
  "ends_at_raise lib m \<Longrightarrow> (\<And>a. ends_at_raise lib (f a)) \<Longrightarrow> ends_at_raise lib (bind m f)"
proof (cases "snd m")
  case (Inl e)
  assume "ends_at_raise lib m"
  with Inl show ?thesis by (simp add: ends_at_raise_def bind_def)
next
  case (Inr a)
  assume "\<And>a. ends_at_raise lib (f a)"
  then have "ends_at_raise lib (f a)" .
  with Inr show ?thesis
    by (cases "snd (f a)") (simp_all add: ends_at_raise_def bind_def)
qed

lemma ends_at_raise_calls:
  "ends_at_raise lib (logging_info msg)"
  "ends_at_raise lib (call_load lib p)"
  "ends_at_raise lib (call_len lib c)"
  "ends_at_raise lib (call_mux lib cs ws)"
  "ends_at_raise lib (return a)"
  by (simp_all add: ends_at_raise_def logging_info_def call_load_def call_len_def call_mux_def
      return_def split: sum.splits)

lemma ends_at_raise_as_result: "ends_at_raise lib m \<Longrightarrow> ends_at_raise lib (as_result shape m)"
  by (simp add: ends_at_raise_def as_result_def split: sum.splits)

lemma ends_at_raise_results_loop: "ends_at_raise lib (results_loop lib self pre suf ks d0)"
  by (induction ks arbitrary: d0) (auto simp: Let_def intro!: ends_at_raise_bind ends_at_raise_calls)

lemma ends_at_raise_accessors:
  "ends_at_raise lib (train_cuts lib self)"
  "ends_at_raise lib (dev_cuts lib self)"
  "ends_at_raise lib (test_cuts lib self)"
  "ends_at_raise lib (aishell_train_cuts lib self)"
  "ends_at_raise lib (aishell_dev_cuts lib self)"
  "ends_at_raise lib (aishell_test_cuts lib self)"
  "ends_at_raise lib (aishell2_train_cuts lib self)"
  "ends_at_raise lib (aishell2_dev_cuts lib self)"
  "ends_at_raise lib (aishell2_test_cuts lib self)"
  "ends_at_raise lib (wenetspeech_test_meeting_cuts lib self)"
  "ends_at_raise lib (speechio_test_cuts lib self)"
  unfolding train_cuts_def dev_cuts_def test_cuts_def aishell_train_cuts_def aishell_dev_cuts_def
    aishell_test_cuts_def aishell2_train_cuts_def aishell2_dev_cuts_def aishell2_test_cuts_def
    wenetspeech_test_meeting_cuts_def speechio_test_cuts_def Let_def
  by (intro ends_at_raise_bind ends_at_raise_calls ends_at_raise_results_loop)+


lemma accessors_all:
  assumes "(name, ps, m) \<in> set (accessors lib self)"
    and "P ''train_cuts'' (map (resolve (fbank_dir self)) train_catalog) (as_result Cuts (train_cuts lib self))"
    and "P ''dev_cuts'' ([resolve (fbank_dir self) [''wenetspeech'', ''cuts_DEV_fixed.jsonl.gz'']]) (as_result Cuts (dev_cuts lib self))"
    and "P ''test_cuts'' (map (\<lambda>entry. resolve (fbank_dir self) (snd entry)) test_catalog) (as_result Mapping (test_cuts lib self))"
    and "P ''aishell_train_cuts'' ([resolve (fbank_dir self) [''aishell_cuts_train.jsonl.gz'']]) (as_result Cuts (aishell_train_cuts lib self))"
    and "P ''aishell_dev_cuts'' ([resolve (fbank_dir self) [''aishell_cuts_dev.jsonl.gz'']]) (as_result Cuts (aishell_dev_cuts lib self))"
    and "P ''aishell_test_cuts'' ([resolve (fbank_dir self) [''aishell_cuts_test.jsonl.gz'']]) (as_result Mapping (aishell_test_cuts lib self))"
    and "P ''aishell2_train_cuts'' ([resolve (fbank_dir self) [''aishell2_cuts_train.jsonl.gz'']]) (as_result Cuts (aishell2_train_cuts lib self))"
    and "P ''aishell2_dev_cuts'' ([resolve (fbank_dir self) [''aishell2_cuts_dev.jsonl.gz'']]) (as_result Cuts (aishell2_dev_cuts lib self))"
    and "P ''aishell2_test_cuts'' ([resolve (fbank_dir self) [''aishell2_cuts_test.jsonl.gz'']]) (as_result Mapping (aishell2_test_cuts lib self))"
    and "P ''wenetspeech_test_meeting_cuts'' ([resolve (fbank_dir self) [''wenetspeech'', ''cuts_TEST_MEETING.jsonl.gz'']]) (as_result Mapping (wenetspeech_test_meeting_cuts lib self))"
    and "P ''speechio_test_cuts'' (map (speechio_path (fbank_dir self)) speechio_names) (as_result Mapping (speechio_test_cuts lib self))"
  shows "P name ps m"
proof -
  from assms(1) have
    "(name = ''train_cuts'' \<and> ps = map (resolve (fbank_dir self)) train_catalog \<and> m = as_result Cuts (train_cuts lib self)) \<or>
     (name = ''dev_cuts'' \<and> ps = [resolve (fbank_dir self) [''wenetspeech'', ''cuts_DEV_fixed.jsonl.gz'']] \<and> m = as_result Cuts (dev_cuts lib self)) \<or>
     (name = ''test_cuts'' \<and> ps = map (\<lambda>entry. resolve (fbank_dir self) (snd entry)) test_catalog \<and> m = as_result Mapping (test_cuts lib self)) \<or>
     (name = ''aishell_train_cuts'' \<and> ps = [resolve (fbank_dir self) [''aishell_cuts_train.jsonl.gz'']] \<and> m = as_result Cuts (aishell_train_cuts lib self)) \<or>
     (name = ''aishell_dev_cuts'' \<and> ps = [resolve (fbank_dir self) [''aishell_cuts_dev.jsonl.gz'']] \<and> m = as_result Cuts (aishell_dev_cuts lib self)) \<or>
     (name = ''aishell_test_cuts'' \<and> ps = [resolve (fbank_dir self) [''aishell_cuts_test.jsonl.gz'']] \<and> m = as_result Mapping (aishell_test_cuts lib self)) \<or>
     (name = ''aishell2_train_cuts'' \<and> ps = [resolve (fbank_dir self) [''aishell2_cuts_train.jsonl.gz'']] \<and> m = as_result Cuts (aishell2_train_cuts lib self)) \<or>
     (name = ''aishell2_dev_cuts'' \<and> ps = [resolve (fbank_dir self) [''aishell2_cuts_dev.jsonl.gz'']] \<and> m = as_result Cuts (aishell2_dev_cuts lib self)) \<or>
     (name = ''aishell2_test_cuts'' \<and> ps = [resolve (fbank_dir self) [''aishell2_cuts_test.jsonl.gz'']] \<and> m = as_result Mapping (aishell2_test_cuts lib self)) \<or>
     (name = ''wenetspeech_test_meeting_cuts'' \<and> ps = [resolve (fbank_dir self) [''wenetspeech'', ''cuts_TEST_MEETING.jsonl.gz'']] \<and> m = as_result Mapping (wenetspeech_test_meeting_cuts lib self)) \<or>
     (name = ''speechio_test_cuts'' \<and> ps = map (speechio_path (fbank_dir self)) speechio_names \<and> m = as_result Mapping (speechio_test_cuts lib self))"
    unfolding accessors_def by simp
  then show ?thesis
    apply (elim disjE conjE)
    apply (hypsubst, rule assms(2-))+
    done
qed












lemma accessor_opens_only:
  assumes "(name, ps, m) \<in> set (accessors lib self)" and "name \<noteq> ''train_cuts''"
  shows "opens_only (fst m)"
proof -
  have "name \<noteq> ''train_cuts'' \<longrightarrow> opens_only (fst m)"
    using assms(1)
    by (rule accessors_all)
       (simp_all add: opens_only_narrow opens_only_test_cuts opens_only_speechio)
  with assms(2) show ?thesis by blast
qed

lemma accessor_ends_at_raise:
  assumes "(name, ps, m) \<in> set (accessors lib self)"
  shows "ends_at_raise lib m"
  using assms
  by (rule accessors_all) (intro ends_at_raise_as_result ends_at_raise_accessors)+


lemma opens_only_lens: "opens_only calls \<Longrightarrow> lens calls = []"
  by (induction calls rule: opens_only.induct) simp_all

lemma sample_train_returns:
  "snd (train_cuts (sample_lhotse eager sample_train_files) sample_self) =
     Inr (MuxCuts (map (\<lambda>segments. LazyCuts (resolve (Path ''data/fbank'') segments)) train_catalog)
                  (map snd sample_train_files))"
  unfolding train_cuts_def
  by (simp add: snd_bind sample_self_def sample_train_files_def train_catalog_def resolve_def)

lemma sample_test_returns:
  "snd (test_cuts (sample_lhotse False files) sample_self) =
     Inr (zip (map fst test_catalog)
            (map (\<lambda>entry. LazyCuts (resolve (Path ''data/fbank'') (snd entry))) test_catalog))"
  unfolding test_cuts_def
  by (simp add: snd_bind sample_self_def test_catalog_def resolve_def dict_display_def)

subsection \<open>The object across calls\<close>



lemma fbank_dir_truncate [simp]: "fbank_dir (MultiDataset.truncate self) = fbank_dir self"
  by (simp add: MultiDataset.truncate_def)














lemma opens_only_last:
  "opens_only calls \<Longrightarrow> calls \<noteq> [] \<Longrightarrow> (\<exists>msg. last calls = CallInfo msg) \<or> (\<exists>p. last calls = CallLoad p)"
  by (induction calls rule: opens_only.induct) auto

lemma opens_only_raise:
  assumes "opens_only (fst m)" and "ends_at_raise lib m" and "snd m = Inl e"
  shows "\<exists>p. last (fst m) = CallLoad p \<and> load_manifest_lazy lib p = Inl e"
proof -
  from assms(2,3) have ne: "fst m \<noteq> []" and r: "raised lib (last (fst m)) = Some e"
    by (simp_all add: ends_at_raise_def)
  from opens_only_last [OF assms(1) ne] r show ?thesis
    by (auto split: sum.splits)
qed

lemma sample_test_fails:
  "snd (test_cuts (sample_lhotse True []) sample_self) =
     Inl (FileNotFoundError (Slash (Path ''data/fbank'') ''aishell_cuts_test.jsonl.gz''))"
  unfolding test_cuts_def by (simp add: snd_bind sample_self_def)

subsection \<open>Training and test manifests\<close>

text \<open>
  C10. No path opened by \<open>train_cuts\<close> is opened by \<open>test_cuts\<close>, whatever the root
  and however the runs end. The thirteen training manifests and the fifteen test
  manifests under one root have no path in common, and a run that returns has opened
  exactly the manifests of its catalogue.
\<close>

theorem train_test_manifests_disjoint:
  "set (loads (fst (train_cuts lib self))) \<inter> set (loads (fst (test_cuts lib self))) = {} \<and>
   set (map (resolve (fbank_dir self)) train_catalog)
     \<inter> set (map (\<lambda>entry. resolve (fbank_dir self) (snd entry)) test_catalog) = {} \<and>
   (snd (train_cuts lib self) = Inr u \<longrightarrow>
      set (loads (fst (train_cuts lib self))) = set (map (resolve (fbank_dir self)) train_catalog)) \<and>
   (snd (test_cuts lib self) = Inr d \<longrightarrow>
      set (loads (fst (test_cuts lib self)))
        = set (map (\<lambda>entry. resolve (fbank_dir self) (snd entry)) test_catalog))"
proof (intro conjI impI)
  show "set (loads (fst (train_cuts lib self))) \<inter> set (loads (fst (test_cuts lib self))) = {}"
    using train_cuts_loads_subset [of lib self] test_cuts_loads_subset [of lib self]
      catalogs_disjoint [of "fbank_dir self"]
    by blast
next
  show "set (map (resolve (fbank_dir self)) train_catalog)
     \<inter> set (map (\<lambda>entry. resolve (fbank_dir self) (snd entry)) test_catalog) = {}"
    by (rule catalogs_disjoint)
next
  assume "snd (train_cuts lib self) = Inr u"
  then show "set (loads (fst (train_cuts lib self))) = set (map (resolve (fbank_dir self)) train_catalog)"
    by (simp add: train_cuts_calls(1) train_catalog_def) blast
next
  assume "snd (test_cuts lib self) = Inr d"
  then show "set (loads (fst (test_cuts lib self)))
        = set (map (\<lambda>entry. resolve (fbank_dir self) (snd entry)) test_catalog)"
    by (simp add: test_cuts_calls test_catalog_def) blast
qed

theorem train_test_manifests_disjoint_witness:
  "set (loads (fst (train_cuts (sample_lhotse False sample_train_files) sample_self)))
     = set (map (resolve (fbank_dir sample_self)) train_catalog) \<and>
   set (loads (fst (test_cuts (sample_lhotse False sample_train_files) sample_self)))
     = set (map (\<lambda>entry. resolve (fbank_dir sample_self) (snd entry)) test_catalog) \<and>
   set (loads (fst (train_cuts (sample_lhotse False sample_train_files) sample_self)))
     \<inter> set (loads (fst (test_cuts (sample_lhotse False sample_train_files) sample_self))) = {}"
  using train_test_manifests_disjoint
    [of "sample_lhotse False sample_train_files" sample_self
        "MuxCuts (map (\<lambda>segments. LazyCuts (resolve (Path ''data/fbank'') segments)) train_catalog)
                  (map snd sample_train_files)"
        "zip (map fst test_catalog)
            (map (\<lambda>entry. LazyCuts (resolve (Path ''data/fbank'') (snd entry))) test_catalog)"]
    sample_train_returns [of False] sample_test_returns [of sample_train_files]
  by blast

subsection \<open>The development split inside the test mapping\<close>

text \<open>
  C9. \<open>dev_cuts\<close> opens one manifest, \<open>wenetspeech/cuts_DEV_fixed.jsonl.gz\<close> under the
  root, and ends as that call ends. Whenever \<open>test_cuts\<close> returns \<open>d\<close>, it has opened the
  same path, \<open>d\<close> has a handle \<open>c\<close> under the key \<open>wenetspeech_dev\<close>, \<open>c\<close> is what
  \<open>load_manifest_lazy\<close> returns for that path, and \<open>dev_cuts\<close> returns \<open>c\<close> as well.
\<close>

theorem dev_cuts_is_test_wenetspeech_dev:
  "snd (dev_cuts lib self) =
     load_manifest_lazy lib (Slash (Slash (fbank_dir self) ''wenetspeech'') ''cuts_DEV_fixed.jsonl.gz'') \<and>
   loads (fst (dev_cuts lib self)) =
     [Slash (Slash (fbank_dir self) ''wenetspeech'') ''cuts_DEV_fixed.jsonl.gz''] \<and>
   (snd (test_cuts lib self) = Inr d \<longrightarrow>
      Slash (Slash (fbank_dir self) ''wenetspeech'') ''cuts_DEV_fixed.jsonl.gz''
        \<in> set (loads (fst (test_cuts lib self))) \<and>
      (\<exists>c. map_of d ''wenetspeech_dev'' = Some c \<and>
           load_manifest_lazy lib (Slash (Slash (fbank_dir self) ''wenetspeech'') ''cuts_DEV_fixed.jsonl.gz'') = Inr c \<and>
           snd (dev_cuts lib self) = Inr c))"
proof (intro conjI impI)
  show dev: "snd (dev_cuts lib self) =
     load_manifest_lazy lib (Slash (Slash (fbank_dir self) ''wenetspeech'') ''cuts_DEV_fixed.jsonl.gz'')"
    unfolding dev_cuts_def by (simp add: snd_bind split: sum.splits)
  show "loads (fst (dev_cuts lib self)) =
     [Slash (Slash (fbank_dir self) ''wenetspeech'') ''cuts_DEV_fixed.jsonl.gz'']"
    unfolding dev_cuts_def by (simp add: fst_bind split: sum.splits)
  assume r: "snd (test_cuts lib self) = Inr d"
  then show "Slash (Slash (fbank_dir self) ''wenetspeech'') ''cuts_DEV_fixed.jsonl.gz''
        \<in> set (loads (fst (test_cuts lib self)))"
    by (simp add: test_cuts_calls resolve_def)
  from r have "\<exists>c0 c1 c2 c3 c4 c5 c6 c7 c8 c9 c10 c11 c12 c13 c14.
        (\<forall>i<15. load_manifest_lazy lib (resolve (fbank_dir self) (snd (test_catalog ! i)))
                   = Inr ([c0, c1, c2, c3, c4, c5, c6, c7, c8, c9, c10, c11, c12, c13, c14] ! i)) \<and>
        d = zip (map fst test_catalog) [c0, c1, c2, c3, c4, c5, c6, c7, c8, c9, c10, c11, c12, c13, c14]"
    unfolding test_cuts_returns .
  then obtain c0 c1 c2 c3 c4 c5 c6 c7 c8 c9 c10 c11 c12 c13 c14 where
    E: "\<forall>i<15. load_manifest_lazy lib (resolve (fbank_dir self) (snd (test_catalog ! i)))
                   = Inr ([c0, c1, c2, c3, c4, c5, c6, c7, c8, c9, c10, c11, c12, c13, c14] ! i)"
    and d: "d = zip (map fst test_catalog) [c0, c1, c2, c3, c4, c5, c6, c7, c8, c9, c10, c11, c12, c13, c14]"
    by (elim exE conjE)
  have "load_manifest_lazy lib (Slash (Slash (fbank_dir self) ''wenetspeech'') ''cuts_DEV_fixed.jsonl.gz'') = Inr c14"
    using E by (simp add: all_less_15 test_catalog_def resolve_def)
  moreover have "map_of d ''wenetspeech_dev'' = Some c14"
    unfolding d by (simp add: test_catalog_def)
  ultimately show "\<exists>c. map_of d ''wenetspeech_dev'' = Some c \<and>
           load_manifest_lazy lib (Slash (Slash (fbank_dir self) ''wenetspeech'') ''cuts_DEV_fixed.jsonl.gz'') = Inr c \<and>
           snd (dev_cuts lib self) = Inr c"
    using dev by simp
qed

theorem dev_cuts_is_test_wenetspeech_dev_witness:
  "Slash (Slash (fbank_dir sample_self) ''wenetspeech'') ''cuts_DEV_fixed.jsonl.gz''
     \<in> set (loads (fst (test_cuts (sample_lhotse False []) sample_self))) \<and>
   (\<exists>c. map_of (zip (map fst test_catalog)
                  (map (\<lambda>entry. LazyCuts (resolve (Path ''data/fbank'') (snd entry))) test_catalog))
           ''wenetspeech_dev'' = Some c \<and>
        load_manifest_lazy (sample_lhotse False [])
          (Slash (Slash (fbank_dir sample_self) ''wenetspeech'') ''cuts_DEV_fixed.jsonl.gz'') = Inr c \<and>
        snd (dev_cuts (sample_lhotse False []) sample_self) = Inr c)"
  using dev_cuts_is_test_wenetspeech_dev
    [of "sample_lhotse False []" sample_self
        "zip (map fst test_catalog)
            (map (\<lambda>entry. LazyCuts (resolve (Path ''data/fbank'') (snd entry))) test_catalog)"]
    sample_test_returns [of "[]"]
  by blast

subsection \<open>Calling an accessor again\<close>



subsection \<open>A manifest that cannot be opened or counted\<close>



subsection \<open>What an accessor does before it returns\<close>

text \<open>
  C2, as it is stated: every accessor, \<open>train_cuts\<close> in particular, only opens its
  manifests and returns, so that nothing is read before the caller iterates. On the
  sample directory, with a library whose \<open>load_manifest_lazy\<close> never looks at the file,
  the run of \<open>train_cuts\<close> is not of that kind: it holds calls of \<open>len\<close>.
\<close>

theorem train_cuts_reads_lengths:
  "\<not> opens_only (fst (train_cuts (sample_lhotse False sample_train_files) sample_self))"
proof
  assume "opens_only (fst (train_cuts (sample_lhotse False sample_train_files) sample_self))"
  then have "lens (fst (train_cuts (sample_lhotse False sample_train_files) sample_self)) = []"
    by (rule opens_only_lens)
  moreover from train_cuts_calls(2) [OF sample_train_returns]
  obtain cs where "length cs = 13"
    and "lens (fst (train_cuts (sample_lhotse False sample_train_files) sample_self)) = cs"
    by blast
  ultimately show False by simp
qed

text \<open>
  C2, amended. Every accessor other than \<open>train_cuts\<close> calls nothing but
  \<open>logging.info\<close> and \<open>load_manifest_lazy\<close> inside its call: it never calls \<open>len\<close>, and
  if it ends in an error, its last call is a \<open>load_manifest_lazy\<close> that raised that
  error. \<open>train_cuts\<close> is the exception: whenever it returns, it has called \<open>len\<close> on
  each of the thirteen handles it opened, in the order of the catalogue, inside its own
  call. What \<open>load_manifest_lazy\<close> reads when it opens is the library's affair and is
  not said here.
\<close>

theorem accessors_open_only_except_train_cuts:
  "((name, ps, m) \<in> set (accessors lib self) \<and> name \<noteq> ''train_cuts'' \<longrightarrow>
      opens_only (fst m) \<and> lens (fst m) = [] \<and>
      (snd m = Inl e \<longrightarrow> (\<exists>p. last (fst m) = CallLoad p \<and> load_manifest_lazy lib p = Inl e))) \<and>
   (snd (train_cuts lib self) = Inr u \<longrightarrow>
      (\<exists>cs. length cs = 13 \<and>
         (\<forall>i<13. load_manifest_lazy lib (resolve (fbank_dir self) (train_catalog ! i)) = Inr (cs ! i)) \<and>
         lens (fst (train_cuts lib self)) = cs))"
proof (intro conjI impI)
  assume a: "(name, ps, m) \<in> set (accessors lib self) \<and> name \<noteq> ''train_cuts''"
  then show o: "opens_only (fst m)" using accessor_opens_only [of name ps m lib self] by blast
  then show "lens (fst m) = []" by (rule opens_only_lens)
  assume "snd m = Inl e"
  moreover from a have "ends_at_raise lib m" using accessor_ends_at_raise [of name ps m lib self] by blast
  ultimately show "\<exists>p. last (fst m) = CallLoad p \<and> load_manifest_lazy lib p = Inl e"
    using o by (intro opens_only_raise)
next
  assume "snd (train_cuts lib self) = Inr u"
  then show "\<exists>cs. length cs = 13 \<and>
         (\<forall>i<13. load_manifest_lazy lib (resolve (fbank_dir self) (train_catalog ! i)) = Inr (cs ! i)) \<and>
         lens (fst (train_cuts lib self)) = cs"
    by (rule train_cuts_calls(2))
qed

theorem accessors_open_only_except_train_cuts_witness:
  "opens_only (fst (as_result Mapping (test_cuts (sample_lhotse True []) sample_self))) \<and>
   lens (fst (as_result Mapping (test_cuts (sample_lhotse True []) sample_self))) = [] \<and>
   (\<exists>p. last (fst (as_result Mapping (test_cuts (sample_lhotse True []) sample_self))) = CallLoad p \<and>
        load_manifest_lazy (sample_lhotse True []) p =
          Inl (FileNotFoundError (Slash (Path ''data/fbank'') ''aishell_cuts_test.jsonl.gz''))) \<and>
   (\<exists>cs. length cs = 13 \<and>
      (\<forall>i<13. load_manifest_lazy (sample_lhotse False sample_train_files)
                 (resolve (fbank_dir sample_self) (train_catalog ! i)) = Inr (cs ! i)) \<and>
      lens (fst (train_cuts (sample_lhotse False sample_train_files) sample_self)) = cs)"
proof -
  have "(''test_cuts'', map (\<lambda>entry. resolve (fbank_dir sample_self) (snd entry)) test_catalog,
         as_result Mapping (test_cuts (sample_lhotse True []) sample_self))
        \<in> set (accessors (sample_lhotse True []) sample_self)"
    by (simp add: accessors_def)
  moreover have "''test_cuts'' \<noteq> ''train_cuts''" by simp
  moreover have "snd (as_result Mapping (test_cuts (sample_lhotse True []) sample_self)) =
     Inl (FileNotFoundError (Slash (Path ''data/fbank'') ''aishell_cuts_test.jsonl.gz''))"
    by (simp add: snd_as_result sample_test_fails)
  ultimately have "opens_only (fst (as_result Mapping (test_cuts (sample_lhotse True []) sample_self))) \<and>
   lens (fst (as_result Mapping (test_cuts (sample_lhotse True []) sample_self))) = [] \<and>
   (\<exists>p. last (fst (as_result Mapping (test_cuts (sample_lhotse True []) sample_self))) = CallLoad p \<and>
        load_manifest_lazy (sample_lhotse True []) p =
          Inl (FileNotFoundError (Slash (Path ''data/fbank'') ''aishell_cuts_test.jsonl.gz'')))"
    using accessors_open_only_except_train_cuts
      [of "''test_cuts''" "map (\<lambda>entry. resolve (fbank_dir sample_self) (snd entry)) test_catalog"
          "as_result Mapping (test_cuts (sample_lhotse True []) sample_self)"
          "sample_lhotse True []" sample_self
          "FileNotFoundError (Slash (Path ''data/fbank'') ''aishell_cuts_test.jsonl.gz'')"]
    by blast
  moreover have "\<exists>cs. length cs = 13 \<and>
      (\<forall>i<13. load_manifest_lazy (sample_lhotse False sample_train_files)
                 (resolve (fbank_dir sample_self) (train_catalog ! i)) = Inr (cs ! i)) \<and>
      lens (fst (train_cuts (sample_lhotse False sample_train_files) sample_self)) = cs"
    using accessors_open_only_except_train_cuts
      [of _ _ _ "sample_lhotse False sample_train_files" sample_self _
          "MuxCuts (map (\<lambda>segments. LazyCuts (resolve (Path ''data/fbank'') segments)) train_catalog)
                  (map snd sample_train_files)"]
      sample_train_returns [of False]
    by blast
  ultimately show ?thesis by blast
qed

end
